theory Spec2Isabelle
  imports Complex_Main
begin

section \<open>JavaScript primitives used by the components\<close>

text \<open>
  A JavaScript number is modelled by a real where the code computes with fractions and by an
  \<open>int\<close> where the code only ever holds an integer (years, rounded counts, millisecond time
  stamps). In the model of DebrisSimulation the arithmetic is exact: the rounding of IEEE
  doubles is not represented there. The projection of MLAnalysis rounds a product that depends
  on its input to an integer, and there every operation is rounded to a double. The one
  non-number that the modelled code can produce is NaN (from \<open>parseInt\<close> on a string without
  leading digits); a value that may be NaN has type \<open>number\<close>, with \<open>None\<close> for NaN.
\<close>

type_synonym number = "real option"

text \<open>\<open>Math.round\<close>: the nearest integer, halves go up.\<close>

definition Math_round :: "real \<Rightarrow> int" where
  "Math_round v = \<lfloor>v + 1 / 2\<rfloor>"

text \<open>
  The operator \<open>%\<close>: the remainder has the sign of the dividend, the quotient is truncated
  towards zero. The divisors in the code are the non-zero constants 360 and \<open>2 * Math.PI\<close>.
\<close>

definition js_rem :: "real \<Rightarrow> real \<Rightarrow> real" where
  "js_rem a b = a - b * of_int (let q = a / b in if 0 \<le> q then \<lfloor>q\<rfloor> else \<lceil>q\<rceil>)"

text \<open>
  Strings are lists of characters; a character stands for a code unit below 256. The white
  space that \<open>trim\<close> and \<open>parseInt\<close> strip is, in that range, TAB, LF, VT, FF, CR, SP and NBSP.
\<close>

definition isWhiteSpace :: "char \<Rightarrow> bool" where
  "isWhiteSpace c = (of_char c \<in> {9, 10, 11, 12, 13, 32, 160 :: nat})"

definition trim :: "string \<Rightarrow> string" where
  "trim s = rev (dropWhile isWhiteSpace (rev (dropWhile isWhiteSpace s)))"

text \<open>\<open>s.substring(a, b)\<close> for \<open>a \<le> b\<close>; both ends are clamped to the length of \<open>s\<close>.\<close>

definition substring :: "nat \<Rightarrow> nat \<Rightarrow> string \<Rightarrow> string" where
  "substring a b s = take (b - a) (drop a s)"

text \<open>\<open>s.split('\n')\<close>: never empty, the empty string splits into one empty line.\<close>

fun split_newline :: "string \<Rightarrow> string list" where
  "split_newline [] = [[]]"
| "split_newline (c # cs) =
     (if c = CHR 0x0A then [] # split_newline cs
      else (case split_newline cs of
              [] \<Rightarrow> [[c]]
            | l # ls \<Rightarrow> (c # l) # ls))"

text \<open>\<open>s.includes(p)\<close>: \<open>p\<close> occurs in \<open>s\<close> as a contiguous block.\<close>

fun str_includes :: "string \<Rightarrow> string \<Rightarrow> bool" where
  "str_includes [] p = (p = [])"
| "str_includes (c # cs) p = (take (length p) (c # cs) = p \<or> str_includes cs p)"

text \<open>
  \<open>parseInt(s)\<close> without a radix: leading white space is skipped, then an optional sign, then
  an optional \<open>0x\<close>/\<open>0X\<close> (which selects radix 16), then the longest run of digits of the radix.
  No digit at all gives NaN, here \<open>None\<close>.
\<close>

definition digitValue :: "char \<Rightarrow> nat option" where
  "digitValue c =
     (let n = (of_char c :: nat) in
      if 48 \<le> n \<and> n \<le> 57 then Some (n - 48)
      else if 97 \<le> n \<and> n \<le> 122 then Some (n - 87)
      else if 65 \<le> n \<and> n \<le> 90 then Some (n - 55)
      else None)"

definition isDigitOf :: "nat \<Rightarrow> char \<Rightarrow> bool" where
  "isDigitOf R c = (case digitValue c of None \<Rightarrow> False | Some d \<Rightarrow> d < R)"

definition digitsValue :: "nat \<Rightarrow> string \<Rightarrow> nat" where
  "digitsValue R Z =
     foldl (\<lambda>acc c. case digitValue c of None \<Rightarrow> acc | Some d \<Rightarrow> acc * R + d) 0 Z"

definition parseInt :: "string \<Rightarrow> int option" where
  "parseInt str =
     (let S = dropWhile isWhiteSpace str;
          sign = (if S \<noteq> [] \<and> hd S = CHR ''-'' then - 1 else 1 :: int);
          S = (if S \<noteq> [] \<and> (hd S = CHR ''+'' \<or> hd S = CHR ''-'') then tl S else S);
          hex = (2 \<le> length S \<and> (take 2 S = ''0x'' \<or> take 2 S = ''0X''));
          R = (if hex then 16 else 10);
          S = (if hex then drop 2 S else S);
          Z = takeWhile (isDigitOf R) S
      in if Z = [] then None else Some (sign * int (digitsValue R Z)))"

text \<open>\<open>n.toString()\<close> of an integer-valued number, and of NaN.\<close>

fun natToString :: "nat \<Rightarrow> string" where
  "natToString n =
     (if n < 10 then [char_of (48 + n)]
      else natToString (n div 10) @ [char_of (48 + n mod 10)])"

definition toString :: "int option \<Rightarrow> string" where
  "toString v =
     (case v of
        None \<Rightarrow> ''NaN''
      | Some i \<Rightarrow> if i < 0 then CHR ''-'' # natToString (nat (- i)) else natToString (nat i))"


section \<open>DebrisSimulation: the growth projection\<close>

datatype RiskLevel = Low | Medium | High | Critical

record PredictionData =
  year :: int
  totalDebris :: int
  largeDebris :: int
  smallDebris :: int
  collisionEvents :: int
  riskLevel :: RiskLevel

definition baseYear :: int where
  "baseYear = 2000"

text \<open>The growth rate of a year: the base value, overwritten by each later threshold reached.\<close>

definition growthRateOf :: "int \<Rightarrow> real" where
  "growthRateOf yr =
     (let growthRate = 1.05;
          growthRate = (if yr \<ge> 2007 then 1.08 else growthRate);
          growthRate = (if yr \<ge> 2009 then 1.12 else growthRate);
          growthRate = (if yr \<ge> 2020 then 1.15 else growthRate);
          growthRate = (if yr \<ge> 2025 then 1.18 else growthRate)
      in growthRate)"

definition riskLevelOf :: "int \<Rightarrow> RiskLevel" where
  "riskLevelOf tot =
     (let risk = Low;
          risk = (if tot > 500 then Medium else risk);
          risk = (if tot > 1500 then High else risk);
          risk = (if tot > 3000 then Critical else risk)
      in risk)"

text \<open>The body of the loop of \<open>generatePredictionData\<close>, for one year.\<close>

definition predictionPoint :: "int \<Rightarrow> PredictionData" where
  "predictionPoint yr =
     (let yearOffset = yr - baseYear;
          growthRate = growthRateOf yr;
          tot = Math_round (20 * (growthRate powi yearOffset));
          large = Math_round (of_int tot * 0.3);
          small = tot - large;
          collisions = max 0 (Math_round ((of_int tot / 1000) * (if yr \<ge> 2009 then 2 else 1)))
      in \<lparr> year = yr, totalDebris = tot, largeDebris = large, smallDebris = small,
           collisionEvents = collisions, riskLevel = riskLevelOf tot \<rparr>)"

function predictionLoop :: "int \<Rightarrow> PredictionData list \<Rightarrow> PredictionData list" where
  "predictionLoop yr predictions =
     (if yr \<le> 2028 then predictionLoop (yr + 1) (predictions @ [predictionPoint yr])
      else predictions)"
  by pat_completeness auto
termination
  by (relation "measure (\<lambda>(yr, predictions). nat (2029 - yr))") auto

text \<open>
  \<open>generatePredictionData\<close> of DebrisSimulation. The local \<open>currentDebris\<close> that the function
  reads from the component state is never used, so the result has no input.
\<close>

definition generatePredictionData :: "PredictionData list" where
  "generatePredictionData = predictionLoop baseYear []"

text \<open>Severity rank of a risk level, for comparing levels.\<close>

fun severity :: "RiskLevel \<Rightarrow> nat" where
  "severity Low = 0"
| "severity Medium = 1"
| "severity High = 2"
| "severity Critical = 3"

subsection \<open>The projection as the specification words it\<close>

text \<open>The regime table, one rate per range of years.\<close>

definition regimeRate :: "int \<Rightarrow> real" where
  "regimeRate yr =
     (if yr < 2007 then 1.05
      else if yr \<le> 2008 then 1.08
      else if yr \<le> 2019 then 1.12
      else if yr \<le> 2024 then 1.15
      else 1.18)"

definition specTotal :: "int \<Rightarrow> int" where
  "specTotal yr = Math_round (20 * regimeRate yr ^ nat (yr - 2000))"

definition specLarge :: "int \<Rightarrow> int" where
  "specLarge yr = Math_round (of_int (specTotal yr) * 0.3)"

definition specSmall :: "int \<Rightarrow> int" where
  "specSmall yr = specTotal yr - specLarge yr"

definition specCollisions :: "int \<Rightarrow> int" where
  "specCollisions yr =
     max 0 (Math_round ((of_int (specTotal yr) / 1000) * (if yr \<ge> 2009 then 2 else 1)))"


section \<open>MLAnalysis: the per-category projection\<close>

subsection \<open>IEEE doubles\<close>

text \<open>
  In this projection a count is multiplied by a power of a growth rate and the product is
  rounded to an integer. The product of the doubles can lie on the other side of a half than
  the product of the reals, so here the rounding of every double operation is part of the
  model. \<open>roundToDouble v\<close> is the double nearest to the real \<open>v\<close>, ties to the even significand:
  53 significant bits, exponent at least -1022 (below that the spacing of the subnormal
  numbers). Overflow to infinity is not represented; the magnitudes of this code stay far
  below \<open>2 ^ 1024\<close>.
\<close>

definition roundHalfEven :: "real \<Rightarrow> int" where
  "roundHalfEven q =
     (let f = \<lfloor>q\<rfloor>; d = q - of_int f
      in if d < 1 / 2 then f else if 1 / 2 < d then f + 1 else if even f then f else f + 1)"

definition exponentOf :: "real \<Rightarrow> int" where
  "exponentOf v = max \<lfloor>log 2 \<bar>v\<bar>\<rfloor> (- 1022)"

definition roundToDouble :: "real \<Rightarrow> real" where
  "roundToDouble v =
     (if v = 0 then 0
      else (let ulp = 2 powi (exponentOf v - 52)
            in of_int (roundHalfEven (v / ulp)) * ulp))"

text \<open>The operators \<open>*\<close> and \<open>+\<close> on doubles: the exact result, rounded.\<close>

definition times_double :: "real \<Rightarrow> real \<Rightarrow> real" where
  "times_double a b = roundToDouble (a * b)"

definition plus_double :: "real \<Rightarrow> real \<Rightarrow> real" where
  "plus_double a b = roundToDouble (a + b)"

subsection \<open>The projection\<close>

record GroupStats =
  count :: int
  avgInclination :: real
  avgAltitude :: real
  categories :: "(string \<times> int) list"

text \<open>
  \<open>dataStats\<close> is an object keyed by group name; \<open>Object.values\<close> and \<open>Object.entries\<close>
  enumerate it in insertion order, so it is modelled by the list of its entries. The counts
  are integers that a double holds exactly (magnitude at most \<open>2 ^ 53\<close>), and so are their
  sums, which are therefore computed as integers.
\<close>

type_synonym DataStats = "(string \<times> GroupStats) list"

record PredictionData_ML =
  ml_year :: int
  totalObjects :: int
  debris :: int
  activeSatellites :: int
  rocketBodies :: int
  collisionRisk :: real

definition currentYear :: int where
  "currentYear = 2024"

definition currentDebris :: "DataStats \<Rightarrow> int" where
  "currentDebris dataStats =
     foldl (\<lambda>sum stats. sum +
        foldl (\<lambda>catSum (cat, cnt). catSum + (if cat = ''Debris'' then cnt else 0)) 0
          (categories stats)) 0 (map snd dataStats)"

definition currentSatellites :: "DataStats \<Rightarrow> int" where
  "currentSatellites dataStats =
     foldl (\<lambda>sum stats. sum +
        foldl (\<lambda>catSum (cat, cnt).
                 catSum + (if cat = ''Satellite'' \<or> cat = ''Constellation'' then cnt else 0)) 0
          (categories stats)) 0 (map snd dataStats)"

definition currentRockets :: "DataStats \<Rightarrow> int" where
  "currentRockets dataStats =
     foldl (\<lambda>sum stats. sum +
        foldl (\<lambda>catSum (cat, cnt). catSum + (if cat = ''Rocket Body'' then cnt else 0)) 0
          (categories stats)) 0 (map snd dataStats)"

text \<open>
  The body of the loop of MLAnalysis' \<open>generatePredictionData\<close>, for one year. The language
  leaves the result of \<open>Math.pow\<close> to the implementation (an approximation of the power), so
  the model takes \<open>Math.pow\<close> as a parameter. A decimal literal denotes the double nearest to
  it. The year offset, 15 and 3 are small integers, held exactly.
\<close>

definition predictionPoint_ML ::
  "(real \<Rightarrow> int \<Rightarrow> real) \<Rightarrow> DataStats \<Rightarrow> int \<Rightarrow> PredictionData_ML" where
  "predictionPoint_ML Math_pow dataStats yr =
     (let yearOffset = yr - currentYear;
          satelliteGrowthRate = roundToDouble 1.15;
          debrisGrowthRate = roundToDouble 1.08;
          rocketGrowthRate = roundToDouble 1.12;
          densityFactor = Math_pow (roundToDouble 1.1) yearOffset;
          risk = min 95 (plus_double (plus_double 15 (times_double (of_int yearOffset) 3))
                           (times_double densityFactor 2));
          satellites =
            Math_round (times_double (of_int (currentSatellites dataStats))
                          (Math_pow satelliteGrowthRate yearOffset));
          deb =
            Math_round (times_double (of_int (currentDebris dataStats))
                          (Math_pow debrisGrowthRate yearOffset));
          rockets =
            Math_round (times_double (of_int (currentRockets dataStats))
                          (Math_pow rocketGrowthRate yearOffset))
      in \<lparr> ml_year = yr, totalObjects = satellites + deb + rockets, debris = deb,
           activeSatellites = satellites, rocketBodies = rockets, collisionRisk = risk \<rparr>)"

function predictionLoop_ML ::
  "(real \<Rightarrow> int \<Rightarrow> real) \<Rightarrow> DataStats \<Rightarrow> int \<Rightarrow> PredictionData_ML list
     \<Rightarrow> PredictionData_ML list" where
  "predictionLoop_ML Math_pow dataStats yr predictions =
     (if yr \<le> currentYear + 10
      then predictionLoop_ML Math_pow dataStats (yr + 1)
             (predictions @ [predictionPoint_ML Math_pow dataStats yr])
      else predictions)"
  by pat_completeness auto
termination
  by (relation "measure (\<lambda>(Math_pow, dataStats, yr, predictions). nat (currentYear + 11 - yr))")
    auto

text \<open>
  \<open>generatePredictionData\<close> of MLAnalysis, as a function of the \<open>dataStats\<close> it reads. The sum
  \<open>currentTotal\<close> that it also computes is never used.
\<close>

definition generatePredictionData_ML ::
  "(real \<Rightarrow> int \<Rightarrow> real) \<Rightarrow> DataStats \<Rightarrow> PredictionData_ML list" where
  "generatePredictionData_ML Math_pow dataStats =
     predictionLoop_ML Math_pow dataStats currentYear []"

subsection \<open>The second projection as the specification words it\<close>

text \<open>The count of the specification for one category, in exact arithmetic.\<close>

definition specCount :: "int \<Rightarrow> real \<Rightarrow> nat \<Rightarrow> int" where
  "specCount c rate k = Math_round (of_int c * rate ^ k)"

text \<open>
  The same count in double arithmetic: the rate is the double of the literal, the power is
  the one \<open>Math.pow\<close> returns, the product is rounded to a double before it is rounded to an
  integer.
\<close>

definition doubleCount :: "(real \<Rightarrow> int \<Rightarrow> real) \<Rightarrow> int \<Rightarrow> real \<Rightarrow> nat \<Rightarrow> int" where
  "doubleCount Math_pow c rate k =
     Math_round (roundToDouble (of_int c * Math_pow (roundToDouble rate) (int k)))"

text \<open>The forecast point at year offset \<open>k\<close> from the three observed counts.\<close>

definition specPoint_ML ::
  "(real \<Rightarrow> int \<Rightarrow> real) \<Rightarrow> int \<Rightarrow> int \<Rightarrow> int \<Rightarrow> nat \<Rightarrow> PredictionData_ML" where
  "specPoint_ML Math_pow sats deb rockets k =
     \<lparr> ml_year = 2024 + int k,
       totalObjects = doubleCount Math_pow sats 1.15 k + doubleCount Math_pow deb 1.08 k
                      + doubleCount Math_pow rockets 1.12 k,
       debris = doubleCount Math_pow deb 1.08 k,
       activeSatellites = doubleCount Math_pow sats 1.15 k,
       rocketBodies = doubleCount Math_pow rockets 1.12 k,
       collisionRisk =
         min 95 (roundToDouble (roundToDouble (15 + roundToDouble (real k * 3))
                                + roundToDouble (Math_pow (roundToDouble 1.1) (int k) * 2))) \<rparr>"

text \<open>
  A \<open>Math.pow\<close> that returns the double nearest to the exact power, and the statistics of two
  groups of 40 entries with 35 constellation and 15 satellite entries.
\<close>

definition nearestPow :: "real \<Rightarrow> int \<Rightarrow> real" where
  "nearestPow b k = roundToDouble (b powi k)"

definition fiftySatellites :: DataStats where
  "fiftySatellites =
     [(''Active Satellites'',
         \<lparr> count = 40, avgInclination = 0, avgAltitude = 0,
           categories = [(''Constellation'', 35), (''Unknown'', 5)] \<rparr>),
      (''Communication Sats'',
         \<lparr> count = 40, avgInclination = 0, avgAltitude = 0,
           categories = [(''Satellite'', 15), (''Unknown'', 25)] \<rparr>)]"


section \<open>Classification of raw records\<close>

text \<open>
  The category and country that \<open>parseTLEData\<close> of DebrisSimulation derives from the display
  name: the first branch whose pattern occurs in the name decides.
\<close>

definition classify :: "string \<Rightarrow> string \<times> string" where
  "classify nm =
     (if str_includes nm ''DEB'' \<or> str_includes nm ''DEBRIS'' then (''Debris'', ''Unknown'')
      else if str_includes nm ''R/B'' \<or> str_includes nm ''ROCKET'' then (''Rocket Body'', ''Unknown'')
      else if str_includes nm ''COSMOS'' \<or> str_includes nm ''SATELLITE''
        then (''Satellite'', ''Unknown'')
      else if str_includes nm ''STARLINK'' then (''Satellite'', ''USA'')
      else if str_includes nm ''ONEWEB'' then (''Satellite'', ''UK'')
      else (''Unknown'', ''Unknown''))"

text \<open>The category that \<open>fetchTLEData\<close> of MLAnalysis derives from the display name.\<close>

definition classify_ML :: "string \<Rightarrow> string" where
  "classify_ML nm =
     (if str_includes nm ''DEB'' \<or> str_includes nm ''DEBRIS'' then ''Debris''
      else if str_includes nm ''R/B'' \<or> str_includes nm ''ROCKET'' then ''Rocket Body''
      else if str_includes nm ''COSMOS'' \<or> str_includes nm ''SATELLITE'' then ''Satellite''
      else if str_includes nm ''STARLINK'' then ''Constellation''
      else if str_includes nm ''WEATHER'' \<or> str_includes nm ''NOAA'' \<or> str_includes nm ''GOES''
        then ''Weather''
      else if str_includes nm ''LANDSAT'' \<or> str_includes nm ''TERRA'' \<or> str_includes nm ''AQUA''
        then ''Earth Observation''
      else ''Unknown'')"

text \<open>The substring patterns of the two rule lists, in the order of the branches.\<close>

definition patterns :: "string list" where
  "patterns =
     [''DEB'', ''DEBRIS'', ''R/B'', ''ROCKET'', ''COSMOS'', ''SATELLITE'', ''STARLINK'', ''ONEWEB'']"

definition patterns_ML :: "string list" where
  "patterns_ML =
     [''DEB'', ''DEBRIS'', ''R/B'', ''ROCKET'', ''COSMOS'', ''SATELLITE'', ''STARLINK'',
      ''WEATHER'', ''NOAA'', ''GOES'', ''LANDSAT'', ''TERRA'', ''AQUA'']"

text \<open>The closed set of categories of a tracked object.\<close>

definition trackedCategories :: "string set" where
  "trackedCategories = {''Debris'', ''Satellite'', ''Rocket Body'', ''Unknown''}"


section \<open>DebrisSimulation: tracked objects and the record parser\<close>

record Position =
  pos_x :: number
  pos_y :: number
  pos_lat :: number
  pos_lon :: number

record PositionSample = Position +
  timestamp :: int

record 'sr DebrisObject =
  name :: string
  noradId :: string
  satrec :: "'sr option"
  positions :: "PositionSample list"
  currentPos :: Position
  category :: string
  launchDate :: "string option"
  country :: "string option"

text \<open>
  The library satellite.js is not part of the repository; the model takes it as a parameter.
  \<open>twoline2satrec l1 l2\<close> is \<open>None\<close> when the call throws or returns a falsy value.
  \<open>geodeticOf r t\<close> stands for the chain \<open>propagate\<close>, \<open>gstime\<close>, \<open>eciToGeodetic\<close>,
  \<open>degreesLat\<close>, \<open>degreesLong\<close> at time \<open>t\<close> (milliseconds): \<open>None\<close> when a call throws or the
  propagated position has no numeric \<open>x\<close>. The global \<open>window.satellite\<close> is an optional library.
\<close>

record 'sr SatelliteLib =
  twoline2satrec :: "string \<Rightarrow> string \<Rightarrow> 'sr option"
  geodeticOf :: "'sr \<Rightarrow> int \<Rightarrow> (number \<times> number) option"

text \<open>One three-line record: the body of the loop of \<open>parseTLEData\<close>.\<close>

definition parseRecord ::
  "'sr SatelliteLib option \<Rightarrow> string \<Rightarrow> string \<Rightarrow> string \<Rightarrow> 'sr DebrisObject option" where
  "parseRecord window_satellite l0 line1 line2 =
     (let nm = trim l0;
          nid = trim (substring 2 7 line1);
          sr = (case window_satellite of
                  None \<Rightarrow> None
                | Some lib \<Rightarrow> twoline2satrec lib line1 line2)
      in case sr of
           None \<Rightarrow> None
         | Some r \<Rightarrow>
             (let (cat, ctry) = classify nm;
                  epochYear = parseInt (substring 18 20 line1);
                  fullYear = (case epochYear of
                                None \<Rightarrow> None
                              | Some e \<Rightarrow> if e < 57 then Some (2000 + e) else Some (1900 + e))
              in Some \<lparr> name = nm, noradId = nid, satrec = Some r, positions = [],
                        currentPos = \<lparr> pos_x = Some 0, pos_y = Some 0, pos_lat = Some 0,
                                       pos_lon = Some 0 \<rparr>,
                        category = cat, launchDate = Some (toString fullYear),
                        country = Some ctry \<rparr>))"

function parseLoop ::
  "'sr SatelliteLib option \<Rightarrow> string list \<Rightarrow> nat \<Rightarrow> 'sr DebrisObject list
     \<Rightarrow> 'sr DebrisObject list" where
  "parseLoop window_satellite ls i objects =
     (if i < length ls
      then parseLoop window_satellite ls (i + 3)
             (if i + 2 < length ls
              then (case parseRecord window_satellite (ls ! i) (ls ! (i + 1)) (ls ! (i + 2)) of
                      None \<Rightarrow> objects
                    | Some obj \<Rightarrow> objects @ [obj])
              else objects)
      else objects)"
  by pat_completeness auto
termination
  by (relation "measure (\<lambda>(window_satellite, ls, i, objects). length ls - i)") auto

text \<open>\<open>parseTLEData\<close>; its second argument \<open>source\<close> is never used and is left out.\<close>

definition parseTLEData :: "'sr SatelliteLib option \<Rightarrow> string \<Rightarrow> 'sr DebrisObject list" where
  "parseTLEData window_satellite tleData =
     (let ls = split_newline (trim tleData);
          objects = parseLoop window_satellite ls 0 [];
          deb = take 12 (filter (\<lambda>obj. category obj = ''Debris'') objects);
          satellites = take 10 (filter (\<lambda>obj. category obj = ''Satellite'') objects);
          rockets = take 6 (filter (\<lambda>obj. category obj = ''Rocket Body'') objects)
      in take 25 (deb @ satellites @ rockets))"


section \<open>DebrisSimulation: positions, trails and hovering\<close>

text \<open>The try block of \<open>calculatePosition\<close>: \<open>None\<close> when control falls through to the fallback.\<close>

definition primaryPosition ::
  "'sr SatelliteLib option \<Rightarrow> 'sr option \<Rightarrow> int \<Rightarrow> (number \<times> number) option" where
  "primaryPosition window_satellite sr date =
     (case sr of
        None \<Rightarrow> None
      | Some r \<Rightarrow> (case window_satellite of
                    None \<Rightarrow> None
                  | Some lib \<Rightarrow> geodeticOf lib r date))"

text \<open>
  The fallback simulation of \<open>calculatePosition\<close>, from the catalog id string, the category
  and \<open>date.getTime()\<close>. The unused local \<open>orbitRadius\<close> is left out. A catalog id that
  \<open>parseInt\<close> cannot read makes the phase, and with it both coordinates, NaN.
\<close>

definition fallbackPosition :: "string \<Rightarrow> string \<Rightarrow> int \<Rightarrow> number \<times> number" where
  "fallbackPosition nid cat date =
     (let time = of_int date / 1000;
          baseSpeed = 0.001;
          speedMultiplier = (if cat = ''Debris'' then 1.3 else if cat = ''Satellite'' then 0.7 else 1);
          inclinationFactor =
            (if cat = ''Debris'' then 1.8 else if cat = ''Satellite'' then 0.6 else 1)
      in case parseInt nid of
           None \<Rightarrow> (None, None)
         | Some n \<Rightarrow>
             (let phase = js_rem (of_int n) 360 * (pi / 180)
              in (Some (sin (time * baseSpeed * speedMultiplier + phase) * 50 * inclinationFactor),
                  Some (js_rem (time * baseSpeed * speedMultiplier * 2.5 + phase) (2 * pi)
                          * (180 / pi) - 180))))"

definition calculatePosition ::
  "'sr SatelliteLib option \<Rightarrow> 'sr DebrisObject \<Rightarrow> int \<Rightarrow> number \<times> number" where
  "calculatePosition window_satellite obj date =
     (case primaryPosition window_satellite (satrec obj) date of
        Some p \<Rightarrow> p
      | None \<Rightarrow> fallbackPosition (noradId obj) (category obj) date)"

definition latLonToXY :: "number \<Rightarrow> number \<Rightarrow> real \<Rightarrow> real \<Rightarrow> number \<times> number" where
  "latLonToXY la lo width height =
     (let earthRadius = min width height * 0.35;
          centerX = width / 2;
          centerY = height / 2
      in (map_option (\<lambda>l. centerX + (l / 180) * earthRadius) lo,
          map_option (\<lambda>l. centerY - (l / 90) * earthRadius) la))"

text \<open>
  The per-object step of \<open>draw\<close>: the new sample is pushed onto the trail, the trail is
  filtered by the cutoff, the current position is replaced. \<open>now\<close> is \<open>now.getTime()\<close>.
\<close>

definition updateObject ::
  "'sr SatelliteLib option \<Rightarrow> real \<Rightarrow> real \<Rightarrow> int \<Rightarrow> 'sr DebrisObject \<Rightarrow> 'sr DebrisObject" where
  "updateObject window_satellite width height now obj =
     (let (la, lo) = calculatePosition window_satellite obj now;
          (sx, sy) = latLonToXY la lo width height;
          newPosition = \<lparr> pos_x = sx, pos_y = sy, pos_lat = la, pos_lon = lo, timestamp = now \<rparr>;
          pushed = positions obj @ [newPosition];
          cutoffTime = now - 90000
      in obj \<lparr> positions := filter (\<lambda>p. timestamp p > cutoffTime) pushed,
               currentPos := \<lparr> pos_x = sx, pos_y = sy, pos_lat = la, pos_lon = lo \<rparr> \<rparr>)"

record TooltipData =
  tip_name :: string
  tip_noradId :: string
  tip_lat :: number
  tip_lon :: number
  tip_x :: real
  tip_y :: real
  tip_category :: string
  tip_launchDate :: "string option"
  tip_country :: "string option"

text \<open>\<open>p.dist\<close> of p5: the Euclidean distance; NaN when a coordinate is NaN.\<close>

definition p5_dist :: "real \<Rightarrow> real \<Rightarrow> number \<Rightarrow> number \<Rightarrow> number" where
  "p5_dist x1 y1 x2 y2 =
     (case x2 of
        None \<Rightarrow> None
      | Some a \<Rightarrow> (case y2 of
                    None \<Rightarrow> None
                  | Some b \<Rightarrow> Some (sqrt ((a - x1)\<^sup>2 + (b - y1)\<^sup>2))))"

definition isHovered :: "real \<Rightarrow> real \<Rightarrow> 'sr DebrisObject \<Rightarrow> bool" where
  "isHovered mouseX mouseY obj =
     (case p5_dist mouseX mouseY (pos_x (currentPos obj)) (pos_y (currentPos obj)) of
        None \<Rightarrow> False
      | Some distance \<Rightarrow> distance < 20)"

definition tooltipOf :: "real \<Rightarrow> real \<Rightarrow> 'sr DebrisObject \<Rightarrow> TooltipData" where
  "tooltipOf mouseX mouseY obj =
     \<lparr> tip_name = name obj, tip_noradId = noradId obj, tip_lat = pos_lat (currentPos obj),
       tip_lon = pos_lon (currentPos obj), tip_x = mouseX, tip_y = mouseY,
       tip_category = category obj, tip_launchDate = launchDate obj,
       tip_country = country obj \<rparr>"

text \<open>
  The \<open>forEach\<close> of \<open>draw\<close> that sets \<open>hoveredObject\<close>: every hovered object overwrites the
  variable.
\<close>

fun hoverLoop ::
  "real \<Rightarrow> real \<Rightarrow> 'sr DebrisObject list \<Rightarrow> TooltipData option \<Rightarrow> TooltipData option" where
  "hoverLoop mouseX mouseY [] hovered = hovered"
| "hoverLoop mouseX mouseY (obj # objs) hovered =
     hoverLoop mouseX mouseY objs
       (if isHovered mouseX mouseY obj then Some (tooltipOf mouseX mouseY obj) else hovered)"

definition hoveredObject :: "real \<Rightarrow> real \<Rightarrow> 'sr DebrisObject list \<Rightarrow> TooltipData option" where
  "hoveredObject mouseX mouseY objs = hoverLoop mouseX mouseY objs None"

text \<open>One frame: the updated objects and the tooltip handed to \<open>setTooltip\<close>.\<close>

definition draw ::
  "'sr SatelliteLib option \<Rightarrow> real \<Rightarrow> real \<Rightarrow> real \<Rightarrow> real \<Rightarrow> int \<Rightarrow> 'sr DebrisObject list
     \<Rightarrow> 'sr DebrisObject list \<times> TooltipData option" where
  "draw window_satellite width height mouseX mouseY now debrisObjects =
     (let updatedObjects = map (updateObject window_satellite width height now) debrisObjects
      in (updatedObjects, hoveredObject mouseX mouseY updatedObjects))"

subsection \<open>The fallback propagation as the specification words it\<close>

datatype Category = Debris | Satellite | RocketBody | Unknown

definition categoryOf :: "string \<Rightarrow> Category" where
  "categoryOf cat =
     (if cat = ''Debris'' then Debris
      else if cat = ''Satellite'' then Satellite
      else if cat = ''Rocket Body'' then RocketBody
      else Unknown)"

fun speedMultiplier :: "Category \<Rightarrow> real" where
  "speedMultiplier Debris = 1.3"
| "speedMultiplier Satellite = 0.7"
| "speedMultiplier _ = 1.0"

fun inclinationFactor :: "Category \<Rightarrow> real" where
  "inclinationFactor Debris = 1.8"
| "inclinationFactor Satellite = 0.6"
| "inclinationFactor _ = 1.0"

text \<open>
  The formula of the specification, from the numeric catalog id, the category and the time
  stamp in milliseconds. Its \<open>mod\<close> is the remainder operator of the source.
\<close>

definition specFallback :: "int \<Rightarrow> Category \<Rightarrow> int \<Rightarrow> real \<times> real" where
  "specFallback catalog_id cat ms =
     (let timestamp_seconds = of_int ms / 1000;
          t = timestamp_seconds * 0.001 * speedMultiplier cat;
          phase = js_rem (of_int catalog_id) 360 * (pi / 180)
      in (sin (t + phase) * 50 * inclinationFactor cat,
          js_rem (t * 2.5 + phase) (2 * pi) * (180 / pi) - 180))"

subsection \<open>The hover query as the specification words it\<close>

text \<open>The first object, in list order, whose screen position is within 20 pixels of the pointer.\<close>

definition withinRadius :: "real \<Rightarrow> real \<Rightarrow> 'sr DebrisObject \<Rightarrow> bool" where
  "withinRadius px py obj =
     (case p5_dist px py (pos_x (currentPos obj)) (pos_y (currentPos obj)) of
        None \<Rightarrow> False
      | Some d \<Rightarrow> d \<le> 20)"

definition specHover :: "real \<Rightarrow> real \<Rightarrow> 'sr DebrisObject list \<Rightarrow> TooltipData option" where
  "specHover px py objs = map_option (tooltipOf px py) (find (withinRadius px py) objs)"

subsection \<open>Sample objects\<close>

text \<open>
  An object without orbital elements, as \<open>generateSimulatedDebris\<close> builds them, with a given
  trail and screen position.
\<close>

definition simulatedObject ::
  "string \<Rightarrow> string \<Rightarrow> string \<Rightarrow> PositionSample list \<Rightarrow> real \<Rightarrow> real \<Rightarrow> unit DebrisObject" where
  "simulatedObject nm nid cat trail px py =
     \<lparr> name = nm, noradId = nid, satrec = None, positions = trail,
       currentPos = \<lparr> pos_x = Some px, pos_y = Some py, pos_lat = Some 0, pos_lon = Some 0 \<rparr>,
       category = cat, launchDate = Some ''2009'', country = Some ''Russia'' \<rparr>"

definition sampleAt :: "int \<Rightarrow> PositionSample" where
  "sampleAt t = \<lparr> pos_x = Some 0, pos_y = Some 0, pos_lat = Some 0, pos_lon = Some 0,
                 timestamp = t \<rparr>"

text \<open>
  A library whose \<open>twoline2satrec\<close> accepts every pair of lines and whose propagation always
  fails, and a text of three-line records built from its lines.
\<close>

definition acceptingLib :: "unit SatelliteLib" where
  "acceptingLib = \<lparr> twoline2satrec = (\<lambda>l1 l2. Some ()), geodeticOf = (\<lambda>r t. None) \<rparr>"

fun joinLines :: "string list \<Rightarrow> string" where
  "joinLines [] = []"
| "joinLines [l] = l"
| "joinLines (l # ls) = l @ CHR 0x0A # joinLines ls"

definition sampleText :: string where
  "sampleText = joinLines
     [''FENGYUN 1C DEB'',
      ''1 29733U 99025AQ  24001.50000000  .00000000  00000-0  00000-0 0  9999'',
      ''2 29733  98.6000 100.0000 0001000  90.0000 270.0000 14.50000000    10'',
      ''ISS (ZARYA)'',
      ''1 25544U 98067A   24001.50000000  .00000000  00000-0  00000-0 0  9999'',
      ''2 25544  51.6000 100.0000 0001000  90.0000 270.0000 15.50000000    10'']"

text \<open>The object that the parser builds from the second record of the sample text.\<close>

definition issObject :: "unit DebrisObject" where
  "issObject = \<lparr> name = ''ISS (ZARYA)'', noradId = ''25544'', satrec = Some (), positions = [],
       currentPos = \<lparr> pos_x = Some 0, pos_y = Some 0, pos_lat = Some 0, pos_lon = Some 0 \<rparr>,
       category = ''Unknown'', launchDate = Some ''2024'', country = Some ''Unknown'' \<rparr>"


section \<open>Properties of the growth projection\<close>

declare predictionLoop.simps [simp del]

lemma predictionLoop_append:
  "predictionLoop yr acc = acc @ map predictionPoint [yr..2028]"
proof (induction yr acc rule: predictionLoop.induct)
  case (1 yr predictions)
  show ?case
  proof (cases "yr \<le> 2028")
    case True
    then have "[yr..2028] = yr # [yr + 1..2028]"
      by (simp add: upto_rec1)
    with True 1 show ?thesis
      by (simp add: predictionLoop.simps [of yr predictions])
  next
    case False
    then show ?thesis
      by (simp add: predictionLoop.simps [of yr predictions])
  qed
qed

lemma generatePredictionData_map:
  "generatePredictionData = map predictionPoint [2000..2028]"
  by (simp add: generatePredictionData_def baseYear_def predictionLoop_append)

lemma nth_generatePredictionData:
  assumes "2000 \<le> yr" "yr \<le> 2028"
  shows "generatePredictionData ! nat (yr - 2000) = predictionPoint yr"
proof -
  have len: "nat (yr - 2000) < length [2000..2028::int]"
    using assms by (simp only: length_upto)
  have "[2000..2028::int] ! nat (yr - 2000) = 2000 + int (nat (yr - 2000))"
    by (rule nth_upto) (use assms in simp)
  then have "[2000..2028::int] ! nat (yr - 2000) = yr"
    using assms by simp
  then show ?thesis
    unfolding generatePredictionData_map using nth_map [OF len, of predictionPoint]
    by (simp only:)
qed

lemma growthRateOf_regimeRate: "growthRateOf yr = regimeRate yr"
  by (simp add: growthRateOf_def regimeRate_def)

lemma totalDebris_point:
  "2000 \<le> yr \<Longrightarrow> totalDebris (predictionPoint yr) = specTotal yr"
  by (simp add: predictionPoint_def specTotal_def growthRateOf_regimeRate baseYear_def
      power_int_def Let_def)

lemma predictionPoint_fields:
  "year (predictionPoint yr) = yr"
  "largeDebris (predictionPoint yr) = Math_round (of_int (totalDebris (predictionPoint yr)) * 0.3)"
  "smallDebris (predictionPoint yr) =
     totalDebris (predictionPoint yr) - largeDebris (predictionPoint yr)"
  "collisionEvents (predictionPoint yr) =
     max 0 (Math_round ((of_int (totalDebris (predictionPoint yr)) / 1000)
                          * (if yr \<ge> 2009 then 2 else 1)))"
  "riskLevel (predictionPoint yr) = riskLevelOf (totalDebris (predictionPoint yr))"
  by (simp_all add: predictionPoint_def Let_def)

lemma specTotal_2001: "specTotal 2001 = 21"
  by (simp add: specTotal_def regimeRate_def Math_round_def)

text \<open>
  Claim C2. For every year from 2000 to 2028 the entry of that year in the list returned by
  \<open>generatePredictionData\<close> carries the year, the total \<open>round(20 * rate(year)^(year - 2000))\<close>
  with the rate of the regime table, the large count \<open>round(total * 0.3)\<close>, the small count
  \<open>total - large\<close> and the collision events \<open>max(0, round(total / 1000 * (2 if year \<ge> 2009
  else 1)))\<close>. For 2001 these are 21, 6, 15 and 0.
\<close>

theorem generatePredictionData_regime_table:
  "(\<forall>yr\<in>{2000..2028}.
      year (generatePredictionData ! nat (yr - 2000)) = yr \<and>
      totalDebris (generatePredictionData ! nat (yr - 2000)) = specTotal yr \<and>
      largeDebris (generatePredictionData ! nat (yr - 2000)) = specLarge yr \<and>
      smallDebris (generatePredictionData ! nat (yr - 2000)) = specSmall yr \<and>
      collisionEvents (generatePredictionData ! nat (yr - 2000)) = specCollisions yr) \<and>
   length generatePredictionData = 29 \<and>
   specTotal 2001 = 21 \<and> specLarge 2001 = 6 \<and> specSmall 2001 = 15 \<and> specCollisions 2001 = 0"
proof (intro conjI ballI)
  fix yr :: int
  assume "yr \<in> {2000..2028}"
  then have r: "2000 \<le> yr" "yr \<le> 2028"
    by simp_all
  note nth = nth_generatePredictionData [OF r]
  show "year (generatePredictionData ! nat (yr - 2000)) = yr"
    by (simp only: nth predictionPoint_fields)
  show t: "totalDebris (generatePredictionData ! nat (yr - 2000)) = specTotal yr"
    by (simp only: nth totalDebris_point [OF r(1)])
  show l: "largeDebris (generatePredictionData ! nat (yr - 2000)) = specLarge yr"
    using t by (simp only: nth predictionPoint_fields specLarge_def)
  show "smallDebris (generatePredictionData ! nat (yr - 2000)) = specSmall yr"
    using t l by (simp only: nth predictionPoint_fields specSmall_def)
  show "collisionEvents (generatePredictionData ! nat (yr - 2000)) = specCollisions yr"
    using t by (simp only: nth predictionPoint_fields specCollisions_def)
next
  show "length generatePredictionData = 29"
    by (simp add: generatePredictionData_map)
  show "specTotal 2001 = 21"
    by (rule specTotal_2001)
  show "specLarge 2001 = 6"
    by (simp add: specLarge_def specTotal_2001 Math_round_def)
  show "specSmall 2001 = 15"
    by (simp add: specSmall_def specLarge_def specTotal_2001 Math_round_def)
  show "specCollisions 2001 = 0"
    by (simp add: specCollisions_def specTotal_2001 Math_round_def)
qed

theorem generatePredictionData_regime_table_witness:
  "(2001 :: int) \<in> {2000..2028} \<and>
   year (generatePredictionData ! 1) = 2001 \<and>
   totalDebris (generatePredictionData ! 1) = 21 \<and>
   largeDebris (generatePredictionData ! 1) = 6 \<and>
   smallDebris (generatePredictionData ! 1) = 15 \<and>
   collisionEvents (generatePredictionData ! 1) = 0"
proof -
  have m: "(2001 :: int) \<in> {2000..2028}"
    by simp
  have n: "nat (2001 - 2000) = 1"
    by simp
  from generatePredictionData_regime_table have
    "\<forall>yr\<in>{2000..2028}.
      year (generatePredictionData ! nat (yr - 2000)) = yr \<and>
      totalDebris (generatePredictionData ! nat (yr - 2000)) = specTotal yr \<and>
      largeDebris (generatePredictionData ! nat (yr - 2000)) = specLarge yr \<and>
      smallDebris (generatePredictionData ! nat (yr - 2000)) = specSmall yr \<and>
      collisionEvents (generatePredictionData ! nat (yr - 2000)) = specCollisions yr"
    and v: "specTotal 2001 = 21" "specLarge 2001 = 6" "specSmall 2001 = 15"
      "specCollisions 2001 = 0"
    by blast+
  from bspec [OF this(1) m] v m show ?thesis
    unfolding n by simp
qed

text \<open>
  Claim C3. The risk level that \<open>generatePredictionData\<close> attaches to a total is Low exactly
  when the total is at most 500, Medium exactly when it is above 500 and at most 1500, High
  exactly when it is above 1500 and at most 3000, and Critical exactly when it is above 3000;
  500 is Low, 501 and 1500 are Medium, 1501 and 3000 are High, 3001 is Critical.
\<close>

theorem riskLevel_thresholds:
  "map riskLevel generatePredictionData =
     map (\<lambda>p. riskLevelOf (totalDebris p)) generatePredictionData \<and>
   (riskLevelOf t = Low) = (t \<le> 500) \<and>
   (riskLevelOf t = Medium) = (500 < t \<and> t \<le> 1500) \<and>
   (riskLevelOf t = High) = (1500 < t \<and> t \<le> 3000) \<and>
   (riskLevelOf t = Critical) = (3000 < t) \<and>
   riskLevelOf 500 = Low \<and> riskLevelOf 501 = Medium \<and> riskLevelOf 1500 = Medium \<and>
   riskLevelOf 1501 = High \<and> riskLevelOf 3000 = High \<and> riskLevelOf 3001 = Critical"
proof -
  have "map riskLevel generatePredictionData =
     map (\<lambda>p. riskLevelOf (totalDebris p)) generatePredictionData"
    unfolding generatePredictionData_map by (simp only: map_map comp_def predictionPoint_fields)
  then show ?thesis
    by (simp add: riskLevelOf_def)
qed

lemma Math_round_mono: "a \<le> b \<Longrightarrow> Math_round a \<le> Math_round b"
  by (simp add: Math_round_def floor_mono)

lemma growthRateOf_ge1: "1 \<le> growthRateOf yr"
  by (simp add: growthRateOf_def)

lemma growthRateOf_mono: "growthRateOf yr \<le> growthRateOf (yr + 1)"
  by (simp add: growthRateOf_def)

lemma totalDebris_mono:
  assumes "2000 \<le> yr"
  shows "totalDebris (predictionPoint yr) \<le> totalDebris (predictionPoint (yr + 1))"
proof -
  define n where "n = nat (yr - 2000)"
  have a: "yr - 2000 = int n" and b: "yr + 1 - 2000 = int (Suc n)"
    using assms by (simp_all add: n_def)
  have "growthRateOf yr ^ n \<le> growthRateOf (yr + 1) ^ n"
    using growthRateOf_mono growthRateOf_ge1 [of yr] by (intro power_mono) auto
  also have "\<dots> \<le> growthRateOf (yr + 1) ^ Suc n"
    using growthRateOf_ge1 [of "yr + 1"] by (intro power_increasing) auto
  finally have "20 * growthRateOf yr powi (yr - 2000)
      \<le> 20 * growthRateOf (yr + 1) powi (yr + 1 - 2000)"
    unfolding a b power_int_of_nat by simp
  then show ?thesis
    by (simp add: predictionPoint_def baseYear_def Let_def Math_round_mono)
qed

lemma totalDebris_sorted: "sorted (map totalDebris generatePredictionData)"
proof -
  have step: "totalDebris (predictionPoint i) \<le> totalDebris (predictionPoint j)"
    if "2000 \<le> i" "i \<le> j" for i j
  proof -
    have "totalDebris (predictionPoint i) \<le> totalDebris (predictionPoint (i + int k))" for k
    proof (induction k)
      case 0
      then show ?case by simp
    next
      case (Suc k)
      have "totalDebris (predictionPoint (i + int k))
          \<le> totalDebris (predictionPoint (i + int k + 1))"
        using that(1) by (intro totalDebris_mono) simp
      with Suc show ?case
        by (simp add: ac_simps)
    qed
    from this [of "nat (j - i)"] that(2) show ?thesis
      by simp
  qed
  have "sorted_wrt (\<lambda>i j. totalDebris (predictionPoint i) \<le> totalDebris (predictionPoint j))
          [2000..2028]"
    by (rule sorted_wrt_mono_rel [OF _ sorted_upto [of 2000 2028]]) (auto intro: step)
  then show ?thesis
    unfolding generatePredictionData_map by (simp only: sorted_wrt_map map_map comp_def)
qed

lemma riskLevelOf_mono: "a \<le> b \<Longrightarrow> severity (riskLevelOf a) \<le> severity (riskLevelOf b)"
  by (simp add: riskLevelOf_def)

lemma totalDebris_2028: "totalDebris (predictionPoint 2028) = 2059"
  by code_simp

lemma totalDebris_2029: "totalDebris (predictionPoint 2029) = 2430"
  by code_simp

text \<open>
  Claim C7. In the projection of DebrisSimulation the total of a year from 2000 to 2028 is at
  most the total that the same loop body gives for the next year, the totals of the returned
  list are in non-decreasing order, and a larger total never gets a lower risk level in the
  order Low, Medium, High, Critical.
\<close>

theorem projection_monotone:
  "(\<forall>yr\<in>{2000..2028}.
      totalDebris (predictionPoint yr) \<le> totalDebris (predictionPoint (yr + 1))) \<and>
   sorted (map totalDebris generatePredictionData) \<and>
   (\<forall>a b. a \<le> b \<longrightarrow> severity (riskLevelOf a) \<le> severity (riskLevelOf b))"
  using totalDebris_mono totalDebris_sorted riskLevelOf_mono by simp

theorem projection_monotone_witness:
  "(2028 :: int) \<in> {2000..2028} \<and>
   totalDebris (predictionPoint 2028) = 2059 \<and>
   totalDebris (predictionPoint (2028 + 1)) = 2430 \<and>
   totalDebris (predictionPoint 2028) \<le> totalDebris (predictionPoint (2028 + 1)) \<and>
   (1500 :: int) \<le> 1501 \<and>
   severity (riskLevelOf 1500) \<le> severity (riskLevelOf 1501)"
proof -
  have m: "(2028 :: int) \<in> {2000..2028}" and l: "(1500 :: int) \<le> 1501"
    by simp_all
  from projection_monotone have
    t: "\<forall>yr\<in>{2000..2028}.
          totalDebris (predictionPoint yr) \<le> totalDebris (predictionPoint (yr + 1))"
    and r: "\<forall>a b. a \<le> b \<longrightarrow> severity (riskLevelOf a) \<le> severity (riskLevelOf b)"
    by blast+
  from bspec [OF t m] r l m show ?thesis
    using totalDebris_2028 totalDebris_2029 by simp
qed


section \<open>Properties of the per-category projection\<close>

declare predictionLoop_ML.simps [simp del]

lemma predictionLoop_ML_append:
  "predictionLoop_ML pw ds yr acc = acc @ map (predictionPoint_ML pw ds) [yr..2034]"
proof (induction pw ds yr acc rule: predictionLoop_ML.induct)
  case (1 pw ds yr predictions)
  show ?case
  proof (cases "yr \<le> 2034")
    case True
    then have "[yr..2034] = yr # [yr + 1..2034]"
      by (simp add: upto_rec1)
    with True 1 show ?thesis
      by (simp add: predictionLoop_ML.simps [of pw ds yr predictions] currentYear_def)
  next
    case False
    then show ?thesis
      by (simp add: predictionLoop_ML.simps [of pw ds yr predictions] currentYear_def)
  qed
qed

lemma years_ML: "[2024..2034] = map (\<lambda>k. 2024 + int k) [0..<11]"
  by (simp add: upt_rec)

lemma predictionPoint_ML_spec:
  "predictionPoint_ML pw ds (2024 + int k) =
     specPoint_ML pw (currentSatellites ds) (currentDebris ds) (currentRockets ds) k"
  by (simp add: predictionPoint_ML_def specPoint_ML_def doubleCount_def currentYear_def Let_def
      times_double_def plus_double_def)

lemma generatePredictionData_ML_map:
  "generatePredictionData_ML pw ds =
     map (specPoint_ML pw (currentSatellites ds) (currentDebris ds) (currentRockets ds)) [0..<11]"
  unfolding generatePredictionData_ML_def predictionLoop_ML_append currentYear_def
  by (simp only: years_ML append_Nil map_map comp_def predictionPoint_ML_spec)

subsection \<open>Rounding to a double\<close>

lemma roundHalfEven_close: "\<bar>of_int (roundHalfEven q) - q\<bar> \<le> 1 / 2"
  unfolding roundHalfEven_def Let_def by (auto simp: abs_if) linarith+

lemma exponentOf_eq:
  assumes "2 powi e \<le> \<bar>v\<bar>" "\<bar>v\<bar> < 2 powi (e + 1)" "- 1022 \<le> e"
  shows "exponentOf v = e"
proof -
  have "(0::real) < 2 powi e"
    by simp
  with assms(1) have pos: "0 < \<bar>v\<bar>"
    by linarith
  have p: "(2::real) powr real_of_int k = 2 powi k" for k
    by (simp add: powr_real_of_int')
  have "\<lfloor>log 2 \<bar>v\<bar>\<rfloor> = e \<longleftrightarrow>
      2 powr real_of_int e \<le> \<bar>v\<bar> \<and> \<bar>v\<bar> < 2 powr real_of_int (e + 1)"
    using pos by (intro floor_log_eq_powr_iff) simp_all
  then have "\<lfloor>log 2 \<bar>v\<bar>\<rfloor> = e"
    using assms(1,2) by (simp only: p simp_thms)
  then show ?thesis
    using assms(3) by (simp add: exponentOf_def)
qed

lemma roundToDouble_eval:
  assumes "2 powi e \<le> \<bar>v\<bar>" "\<bar>v\<bar> < 2 powi (e + 1)" "- 1022 \<le> e"
  shows "roundToDouble v = of_int (roundHalfEven (v / 2 powi (e - 52))) * 2 powi (e - 52)"
proof -
  have "(0::real) < 2 powi e"
    by simp
  with assms(1) have "0 < \<bar>v\<bar>"
    by linarith
  then have "v \<noteq> 0"
    by auto
  then show ?thesis
    by (simp add: roundToDouble_def Let_def exponentOf_eq [OF assms])
qed

lemma roundToDouble_close:
  assumes "\<bar>v\<bar> < 2 ^ 34"
  shows "\<bar>roundToDouble v - v\<bar> \<le> 1 / 2 ^ 20"
proof (cases "v = 0")
  case True
  then show ?thesis
    by (simp add: roundToDouble_def)
next
  case False
  define e where "e = exponentOf v"
  define ulp :: real where "ulp = 2 powi (e - 52)"
  have pos: "0 < \<bar>v\<bar>"
    using False by simp
  have "\<bar>v\<bar> < 2 powr 34"
    using assms by simp
  moreover have "log 2 \<bar>v\<bar> < 34 \<longleftrightarrow> \<bar>v\<bar> < 2 powr 34"
    using pos by (intro log_less_iff) simp_all
  ultimately have "log 2 \<bar>v\<bar> < 34"
    by blast
  then have "\<lfloor>log 2 \<bar>v\<bar>\<rfloor> \<le> 33"
    by linarith
  then have e: "e \<le> 33"
    by (simp add: e_def exponentOf_def)
  have u0: "0 < ulp"
    by (simp add: ulp_def)
  have "ulp \<le> 2 powi (- 19)"
    unfolding ulp_def using e by (intro power_int_increasing) simp_all
  then have u1: "ulp \<le> 1 / 2 ^ 19"
    by (simp add: power_int_minus field_simps)
  have r: "roundToDouble v = of_int (roundHalfEven (v / ulp)) * ulp"
    using False by (simp add: roundToDouble_def Let_def ulp_def e_def)
  have "roundToDouble v - v = (of_int (roundHalfEven (v / ulp)) - v / ulp) * ulp"
    using u0 by (simp add: r algebra_simps)
  then have "\<bar>roundToDouble v - v\<bar> = \<bar>of_int (roundHalfEven (v / ulp)) - v / ulp\<bar> * ulp"
    using u0 by (simp add: abs_mult)
  also have "\<dots> \<le> 1 / 2 * ulp"
    using u0 by (intro mult_right_mono roundHalfEven_close) simp
  also have "\<dots> \<le> 1 / 2 * (1 / 2 ^ 19)"
    using u1 by simp
  finally show ?thesis
    by simp
qed

lemma Math_round_close:
  assumes "\<bar>a - b\<bar> < 1"
  shows "\<bar>Math_round a - Math_round b\<bar> \<le> 1"
proof -
  have "Math_round a \<le> Math_round (b + 1)" "Math_round b \<le> Math_round (a + 1)"
    using assms by (auto simp: Math_round_def intro!: floor_mono)
  moreover have "Math_round (v + 1) = Math_round v + 1" for v
    unfolding Math_round_def by linarith
  ultimately show ?thesis
    by simp
qed

lemma doubleCount_close:
  assumes c: "\<bar>c\<bar> \<le> 10 ^ 9" and r: "1 \<le> rate" "rate \<le> 1.15" and k: "k \<le> 10"
    and p: "\<bar>pw (roundToDouble rate) (int k) - rate ^ k\<bar> \<le> rate ^ k / 2 ^ 40"
  shows "\<bar>doubleCount pw c rate k - specCount c rate k\<bar> \<le> 1"
proof -
  define q where "q = pw (roundToDouble rate) (int k)"
  have "rate ^ k \<le> rate ^ 10"
    using r(1) k by (intro power_increasing) simp_all
  also have "\<dots> \<le> 1.15 ^ 10"
    using r by (intro power_mono) simp_all
  also have "\<dots> \<le> (5 :: real)"
    by (simp add: power_divide)
  finally have rk: "rate ^ k \<le> 5" .
  have rk0: "0 \<le> rate ^ k"
    using r(1) by simp
  have cr: "\<bar>real_of_int c\<bar> \<le> 10 ^ 9"
    using c by (metis of_int_abs of_int_le_iff of_int_numeral of_int_power)
  have d: "\<bar>q - rate ^ k\<bar> \<le> 5 / 2 ^ 40"
    using p rk unfolding q_def by (simp add: field_simps)
  have "\<bar>of_int c * q - of_int c * rate ^ k\<bar> = \<bar>real_of_int c\<bar> * \<bar>q - rate ^ k\<bar>"
    by (simp add: abs_mult flip: right_diff_distrib)
  also have "\<dots> \<le> 10 ^ 9 * (5 / 2 ^ 40)"
    using cr d by (intro mult_mono) simp_all
  finally have e1: "\<bar>of_int c * q - of_int c * rate ^ k\<bar> \<le> 10 ^ 9 * (5 / 2 ^ 40)" .
  have "(5 :: real) / 2 ^ 40 \<le> 1"
    by simp
  with d rk rk0 have "\<bar>q\<bar> \<le> 6"
    by linarith
  then have "\<bar>of_int c * q\<bar> \<le> 10 ^ 9 * 6"
    unfolding abs_mult using cr by (intro mult_mono) simp_all
  then have "\<bar>of_int c * q\<bar> < 2 ^ 34"
    by simp
  then have e2: "\<bar>roundToDouble (of_int c * q) - of_int c * q\<bar> \<le> 1 / 2 ^ 20"
    by (rule roundToDouble_close)
  have "(10 :: real) ^ 9 * (5 / 2 ^ 40) \<le> 1 / 4" "(1 :: real) / 2 ^ 20 \<le> 1 / 4"
    by simp_all
  with e1 e2 have "\<bar>roundToDouble (of_int c * q) - of_int c * rate ^ k\<bar> < 1"
    by linarith
  then show ?thesis
    unfolding doubleCount_def specCount_def q_def [symmetric] by (rule Math_round_close)
qed

subsection \<open>The doubles of the growth rates\<close>

lemma roundHalfEven_of_int: "roundHalfEven (of_int n) = n"
  by (simp add: roundHalfEven_def)

lemma roundToDouble_unit_interval:
  assumes "1 \<le> v" "v < 2"
  shows "roundToDouble v = of_int (roundHalfEven (v * 2 ^ 52)) / 2 ^ 52"
proof -
  have a: "2 powi 0 \<le> \<bar>v\<bar>" "\<bar>v\<bar> < 2 powi (0 + 1)" "- 1022 \<le> (0 :: int)"
    using assms by simp_all
  have u: "(2 :: real) powi (0 - 52) = 1 / 2 ^ 52"
    by (simp add: power_int_minus field_simps)
  show ?thesis
    unfolding roundToDouble_eval [OF a] u by simp
qed

lemma double_115: "roundToDouble 1.15 = 5179139571476070 / 2 ^ 52"
proof -
  have "roundToDouble 1.15 = of_int (roundHalfEven (1.15 * 2 ^ 52)) / 2 ^ 52"
    by (rule roundToDouble_unit_interval) simp_all
  also have "(1.15 :: real) * 2 ^ 52 = 25895697857380352 / 5"
    by simp
  also have "roundHalfEven (25895697857380352 / 5) = 5179139571476070"
    by (simp add: roundHalfEven_def)
  finally show ?thesis
    by (simp only: of_int_numeral)
qed

lemma double_108: "roundToDouble 1.08 = 4863887597560136 / 2 ^ 52"
proof -
  have "roundToDouble 1.08 = of_int (roundHalfEven (1.08 * 2 ^ 52)) / 2 ^ 52"
    by (rule roundToDouble_unit_interval) simp_all
  also have "(1.08 :: real) * 2 ^ 52 = 121597189939003392 / 25"
    by simp
  also have "roundHalfEven (121597189939003392 / 25) = 4863887597560136"
    by (simp add: roundHalfEven_def)
  finally show ?thesis
    by (simp only: of_int_numeral)
qed

lemma double_112: "roundToDouble 1.12 = 5044031582654956 / 2 ^ 52"
proof -
  have "roundToDouble 1.12 = of_int (roundHalfEven (1.12 * 2 ^ 52)) / 2 ^ 52"
    by (rule roundToDouble_unit_interval) simp_all
  also have "(1.12 :: real) * 2 ^ 52 = 126100789566373888 / 25"
    by simp
  also have "roundHalfEven (126100789566373888 / 25) = 5044031582654956"
    by (simp add: roundHalfEven_def)
  finally show ?thesis
    by (simp only: of_int_numeral)
qed

lemma roundToDouble_significand:
  assumes "2 ^ 52 \<le> n" "n < 2 ^ 53"
  shows "roundToDouble (of_int n / 2 ^ 52) = of_int n / 2 ^ 52"
proof -
  have "real_of_int (2 ^ 52) \<le> of_int n" "real_of_int n < of_int (2 ^ 53)"
    using assms by (simp_all only: of_int_le_iff of_int_less_iff)
  then have b: "1 \<le> real_of_int n / 2 ^ 52" "real_of_int n / 2 ^ 52 < 2"
    by simp_all
  have "real_of_int n / 2 ^ 52 * 2 ^ 52 = of_int n"
    by simp
  then show ?thesis
    unfolding roundToDouble_unit_interval [OF b] by (simp only: roundHalfEven_of_int)
qed

lemma nearestPow_1:
  assumes "2 ^ 52 \<le> n" "n < 2 ^ 53"
  shows "nearestPow (of_int n / 2 ^ 52) 1 = of_int n / 2 ^ 52"
  unfolding nearestPow_def power_int_1_right by (rule roundToDouble_significand [OF assms])

lemma nearestPow_115: "nearestPow (roundToDouble 1.15) 1 = 5179139571476070 / 2 ^ 52"
proof -
  have a: "(2 :: int) ^ 52 \<le> 5179139571476070" "(5179139571476070 :: int) < 2 ^ 53"
    by simp_all
  from nearestPow_1 [OF a] show ?thesis
    unfolding double_115 by (simp only: of_int_numeral)
qed

lemma nearestPow_108: "nearestPow (roundToDouble 1.08) 1 = 4863887597560136 / 2 ^ 52"
proof -
  have a: "(2 :: int) ^ 52 \<le> 4863887597560136" "(4863887597560136 :: int) < 2 ^ 53"
    by simp_all
  from nearestPow_1 [OF a] show ?thesis
    unfolding double_108 by (simp only: of_int_numeral)
qed

lemma nearestPow_112: "nearestPow (roundToDouble 1.12) 1 = 5044031582654956 / 2 ^ 52"
proof -
  have a: "(2 :: int) ^ 52 \<le> 5044031582654956" "(5044031582654956 :: int) < 2 ^ 53"
    by simp_all
  from nearestPow_1 [OF a] show ?thesis
    unfolding double_112 by (simp only: of_int_numeral)
qed

lemma product_50: "roundToDouble (50 * (5179139571476070 / 2 ^ 52)) = 8092405580431359 / 2 ^ 47"
proof -
  have "roundToDouble (50 * (5179139571476070 / 2 ^ 52))
      = of_int (roundHalfEven ((50 * (5179139571476070 / 2 ^ 52)) / 2 powi (5 - 52)))
          * 2 powi (5 - 52)"
    by (rule roundToDouble_eval) simp_all
  also have "((50 :: real) * (5179139571476070 / 2 ^ 52)) / 2 powi (5 - 52)
      = 64739244643450875 / 8"
    by (simp add: power_int_minus field_simps)
  also have "roundHalfEven (64739244643450875 / 8) = 8092405580431359"
    by (simp add: roundHalfEven_def)
  finally show ?thesis
    by (simp add: power_int_minus field_simps)
qed

lemma doubleCount_50:
  assumes "pw (roundToDouble 1.15) 1 = roundToDouble 1.15"
  shows "doubleCount pw 50 1.15 1 = 57"
proof -
  have "doubleCount pw 50 1.15 1 = Math_round (roundToDouble (50 * pw (roundToDouble 1.15) 1))"
    by (simp only: doubleCount_def of_int_numeral of_nat_1)
  also have "\<dots> = Math_round (roundToDouble (50 * roundToDouble 1.15))"
    by (simp only: assms)
  also have "\<dots> = Math_round (roundToDouble (50 * (5179139571476070 / 2 ^ 52)))"
    by (simp only: double_115)
  also have "\<dots> = Math_round (8092405580431359 / 2 ^ 47)"
    by (simp only: product_50)
  also have "\<dots> = 57"
    by (simp add: Math_round_def)
  finally show ?thesis .
qed

lemma specCount_50: "specCount 50 1.15 1 = 58"
  by (simp add: specCount_def Math_round_def)

lemma currentSatellites_fifty: "currentSatellites fiftySatellites = 50"
  by (simp add: currentSatellites_def fiftySatellites_def)

lemma currentDebris_fifty: "currentDebris fiftySatellites = 0"
  by (simp add: currentDebris_def fiftySatellites_def)

lemma currentRockets_fifty: "currentRockets fiftySatellites = 0"
  by (simp add: currentRockets_def fiftySatellites_def)

lemma nth_generatePredictionData_ML:
  assumes "k \<le> 10"
  shows "generatePredictionData_ML pw ds ! k =
     specPoint_ML pw (currentSatellites ds) (currentDebris ds) (currentRockets ds) k"
proof -
  have "k < length [0..<11]"
    using assms by simp
  then show ?thesis
    unfolding generatePredictionData_ML_map by (simp only: nth_map) (use assms in simp)
qed

text \<open>
  Claim C8, as stated, fails: with 50 observed satellites and a \<open>Math.pow\<close> that returns the
  base for exponent 1, the double product of 50 and the double of 1.15 is below 57.5, so the
  point of offset 1 has 57 active satellites, while \<open>round(50 * 1.15^1)\<close> is 58.
\<close>

theorem activeSatellites_counterexample:
  "currentSatellites fiftySatellites = 50 \<and>
   nearestPow (roundToDouble 1.15) 1 = roundToDouble 1.15 \<and>
   activeSatellites (generatePredictionData_ML nearestPow fiftySatellites ! 1) = 57 \<and>
   specCount (currentSatellites fiftySatellites) 1.15 1 = 58"
proof -
  have p: "nearestPow (roundToDouble 1.15) 1 = roundToDouble 1.15"
    by (simp only: nearestPow_115) (simp only: double_115)
  have "activeSatellites (generatePredictionData_ML nearestPow fiftySatellites ! 1)
      = doubleCount nearestPow 50 1.15 1"
    by (simp add: nth_generatePredictionData_ML specPoint_ML_def currentSatellites_fifty)
  then have v: "activeSatellites (generatePredictionData_ML nearestPow fiftySatellites ! 1) = 57"
    by (simp only: doubleCount_50 [of nearestPow, OF p])
  have s: "specCount (currentSatellites fiftySatellites) 1.15 1 = 58"
    by (simp only: currentSatellites_fifty specCount_50)
  show ?thesis
    by (intro conjI currentSatellites_fifty p v s)
qed

text \<open>
  Claim C8, amended. The list returned by \<open>generatePredictionData\<close> of MLAnalysis has one point
  for each year offset \<open>k\<close> from 0 to 10, and that point is a function of the three observed
  counts and of \<open>Math.pow\<close>: each category count is the double product of the observed count and
  \<open>Math.pow(rate, k)\<close>, rounded to an integer, with the rates 1.15, 1.08 and 1.12 as doubles;
  the total is the sum of the three; the collision risk is \<open>min(95, 15 + 3 * k + 2 *
  Math.pow(1.1, k))\<close> in double arithmetic. When the observed counts are at most \<open>10^9\<close> in
  magnitude and \<open>Math.pow\<close> is within the relative error \<open>2^-40\<close> of the exact power, each
  category count differs from \<open>round(count * rate^k)\<close> by at most 1.
\<close>

theorem generatePredictionData_ML_doubles:
  "generatePredictionData_ML pw ds =
     map (specPoint_ML pw (currentSatellites ds) (currentDebris ds) (currentRockets ds))
       [0..<11] \<and>
   (k \<le> 10 \<and>
    \<bar>currentSatellites ds\<bar> \<le> 10 ^ 9 \<and> \<bar>currentDebris ds\<bar> \<le> 10 ^ 9 \<and>
    \<bar>currentRockets ds\<bar> \<le> 10 ^ 9 \<and>
    \<bar>pw (roundToDouble 1.15) (int k) - 1.15 ^ k\<bar> \<le> 1.15 ^ k / 2 ^ 40 \<and>
    \<bar>pw (roundToDouble 1.08) (int k) - 1.08 ^ k\<bar> \<le> 1.08 ^ k / 2 ^ 40 \<and>
    \<bar>pw (roundToDouble 1.12) (int k) - 1.12 ^ k\<bar> \<le> 1.12 ^ k / 2 ^ 40
    \<longrightarrow>
      \<bar>activeSatellites (generatePredictionData_ML pw ds ! k)
         - specCount (currentSatellites ds) 1.15 k\<bar> \<le> 1 \<and>
      \<bar>debris (generatePredictionData_ML pw ds ! k)
         - specCount (currentDebris ds) 1.08 k\<bar> \<le> 1 \<and>
      \<bar>rocketBodies (generatePredictionData_ML pw ds ! k)
         - specCount (currentRockets ds) 1.12 k\<bar> \<le> 1)"
proof (intro conjI impI)
  show "generatePredictionData_ML pw ds =
     map (specPoint_ML pw (currentSatellites ds) (currentDebris ds) (currentRockets ds))
       [0..<11]"
    by (rule generatePredictionData_ML_map)
next
  assume a: "k \<le> 10 \<and>
    \<bar>currentSatellites ds\<bar> \<le> 10 ^ 9 \<and> \<bar>currentDebris ds\<bar> \<le> 10 ^ 9 \<and>
    \<bar>currentRockets ds\<bar> \<le> 10 ^ 9 \<and>
    \<bar>pw (roundToDouble 1.15) (int k) - 1.15 ^ k\<bar> \<le> 1.15 ^ k / 2 ^ 40 \<and>
    \<bar>pw (roundToDouble 1.08) (int k) - 1.08 ^ k\<bar> \<le> 1.08 ^ k / 2 ^ 40 \<and>
    \<bar>pw (roundToDouble 1.12) (int k) - 1.12 ^ k\<bar> \<le> 1.12 ^ k / 2 ^ 40"
  then have k: "k \<le> 10"
    by simp
  note nth = nth_generatePredictionData_ML [OF k, of pw ds]
  show "\<bar>activeSatellites (generatePredictionData_ML pw ds ! k)
         - specCount (currentSatellites ds) 1.15 k\<bar> \<le> 1"
    unfolding nth using a by (simp add: specPoint_ML_def doubleCount_close)
  show "\<bar>debris (generatePredictionData_ML pw ds ! k)
         - specCount (currentDebris ds) 1.08 k\<bar> \<le> 1"
    unfolding nth using a by (simp add: specPoint_ML_def doubleCount_close)
  show "\<bar>rocketBodies (generatePredictionData_ML pw ds ! k)
         - specCount (currentRockets ds) 1.12 k\<bar> \<le> 1"
    unfolding nth using a by (simp add: specPoint_ML_def doubleCount_close)
qed

text \<open>
  With 50 observed satellites and no debris or rocket bodies, the point of offset 1 has 57
  active satellites, one below the 58 of the exact formula, 0 debris and 0 rocket bodies.
\<close>

theorem generatePredictionData_ML_doubles_witness:
  "\<bar>currentSatellites fiftySatellites\<bar> \<le> 10 ^ 9 \<and>
   \<bar>nearestPow (roundToDouble 1.15) (int 1) - 1.15 ^ 1\<bar> \<le> 1.15 ^ 1 / 2 ^ 40 \<and>
   \<bar>nearestPow (roundToDouble 1.08) (int 1) - 1.08 ^ 1\<bar> \<le> 1.08 ^ 1 / 2 ^ 40 \<and>
   \<bar>nearestPow (roundToDouble 1.12) (int 1) - 1.12 ^ 1\<bar> \<le> 1.12 ^ 1 / 2 ^ 40 \<and>
   activeSatellites (generatePredictionData_ML nearestPow fiftySatellites ! 1) = 57 \<and>
   specCount (currentSatellites fiftySatellites) 1.15 1 = 58 \<and>
   \<bar>activeSatellites (generatePredictionData_ML nearestPow fiftySatellites ! 1)
      - specCount (currentSatellites fiftySatellites) 1.15 1\<bar> \<le> 1 \<and>
   length (generatePredictionData_ML nearestPow fiftySatellites) = 11"
proof -
  have c: "\<bar>currentSatellites fiftySatellites\<bar> \<le> 10 ^ 9"
    "\<bar>currentDebris fiftySatellites\<bar> \<le> 10 ^ 9" "\<bar>currentRockets fiftySatellites\<bar> \<le> 10 ^ 9"
    by (simp_all add: currentSatellites_fifty currentDebris_fifty currentRockets_fifty)
  have p: "\<bar>nearestPow (roundToDouble 1.15) (int 1) - 1.15 ^ 1\<bar> \<le> 1.15 ^ 1 / 2 ^ 40"
    "\<bar>nearestPow (roundToDouble 1.08) (int 1) - 1.08 ^ 1\<bar> \<le> 1.08 ^ 1 / 2 ^ 40"
    "\<bar>nearestPow (roundToDouble 1.12) (int 1) - 1.12 ^ 1\<bar> \<le> 1.12 ^ 1 / 2 ^ 40"
    unfolding of_nat_1 nearestPow_115 nearestPow_108 nearestPow_112 by simp_all
  note t = generatePredictionData_ML_doubles [of nearestPow fiftySatellites 1]
  have k: "(1 :: nat) \<le> 10"
    by simp
  have h: "(1 :: nat) \<le> 10 \<and>
    \<bar>currentSatellites fiftySatellites\<bar> \<le> 10 ^ 9 \<and>
    \<bar>currentDebris fiftySatellites\<bar> \<le> 10 ^ 9 \<and>
    \<bar>currentRockets fiftySatellites\<bar> \<le> 10 ^ 9 \<and>
    \<bar>nearestPow (roundToDouble 1.15) (int 1) - 1.15 ^ 1\<bar> \<le> 1.15 ^ 1 / 2 ^ 40 \<and>
    \<bar>nearestPow (roundToDouble 1.08) (int 1) - 1.08 ^ 1\<bar> \<le> 1.08 ^ 1 / 2 ^ 40 \<and>
    \<bar>nearestPow (roundToDouble 1.12) (int 1) - 1.12 ^ 1\<bar> \<le> 1.12 ^ 1 / 2 ^ 40"
    by (intro conjI k c p)
  note near = t [THEN conjunct2, THEN mp, OF h, THEN conjunct1]
  from t have "length (generatePredictionData_ML nearestPow fiftySatellites) = length [0..<11]"
    by (simp only: length_map)
  then have len: "length (generatePredictionData_ML nearestPow fiftySatellites) = 11"
    by simp
  have q: "nearestPow (roundToDouble 1.15) 1 = roundToDouble 1.15"
    by (simp only: nearestPow_115) (simp only: double_115)
  have "activeSatellites (generatePredictionData_ML nearestPow fiftySatellites ! 1)
      = doubleCount nearestPow 50 1.15 1"
    by (simp add: nth_generatePredictionData_ML specPoint_ML_def currentSatellites_fifty)
  then have v: "activeSatellites (generatePredictionData_ML nearestPow fiftySatellites ! 1) = 57"
    by (simp only: doubleCount_50 [of nearestPow, OF q])
  have s: "specCount (currentSatellites fiftySatellites) 1.15 1 = 58"
    by (simp only: currentSatellites_fifty specCount_50)
  show ?thesis
    by (intro conjI c(1) p v s near len)
qed


section \<open>Properties of the hover query\<close>

lemma find_append_cases:
  "find P (xs @ ys) = (case find P xs of None \<Rightarrow> find P ys | Some v \<Rightarrow> Some v)"
  by (induction xs) auto

lemma hoverLoop_find:
  "hoverLoop mx my objs h =
     (case find (isHovered mx my) (rev objs) of
        None \<Rightarrow> h
      | Some obj \<Rightarrow> Some (tooltipOf mx my obj))"
  by (induction objs arbitrary: h) (auto simp: find_append_cases split: option.splits)

lemma sqrt_less_20: "sqrt v < 20 \<longleftrightarrow> v < 400"
  using real_sqrt_less_iff [of v 400] by simp

lemma sqrt_le_20: "sqrt v \<le> 20 \<longleftrightarrow> v \<le> 400"
  using real_sqrt_le_iff [of v 400] by simp

lemma isHovered_simulated:
  "isHovered mx my (simulatedObject nm nid cat trail px py)
     \<longleftrightarrow> (px - mx)\<^sup>2 + (py - my)\<^sup>2 < 400"
  by (simp add: isHovered_def p5_dist_def sqrt_less_20 simulatedObject_def)

lemma withinRadius_simulated:
  "withinRadius mx my (simulatedObject nm nid cat trail px py)
     \<longleftrightarrow> (px - mx)\<^sup>2 + (py - my)\<^sup>2 \<le> 400"
  by (simp add: withinRadius_def p5_dist_def sqrt_le_20 simulatedObject_def)

text \<open>
  Claim C1, as stated, fails: with the pointer at (100, 100) and two objects within the
  radius, A at (105, 100) first and B at (100, 110) second, the hover query of \<open>draw\<close>
  returns B, while the first object within the radius is A.
\<close>

theorem hover_first_counterexample:
  "hoveredObject 100 100
     [simulatedObject ''A'' ''40001'' ''Debris'' [] 105 100,
      simulatedObject ''B'' ''40002'' ''Debris'' [] 100 110]
   = Some (tooltipOf 100 100 (simulatedObject ''B'' ''40002'' ''Debris'' [] 100 110)) \<and>
   specHover 100 100
     [simulatedObject ''A'' ''40001'' ''Debris'' [] 105 100,
      simulatedObject ''B'' ''40002'' ''Debris'' [] 100 110]
   = Some (tooltipOf 100 100 (simulatedObject ''A'' ''40001'' ''Debris'' [] 105 100)) \<and>
   hoveredObject 100 100
     [simulatedObject ''A'' ''40001'' ''Debris'' [] 105 100,
      simulatedObject ''B'' ''40002'' ''Debris'' [] 100 110]
   \<noteq> specHover 100 100
     [simulatedObject ''A'' ''40001'' ''Debris'' [] 105 100,
      simulatedObject ''B'' ''40002'' ''Debris'' [] 100 110]"
proof -
  have "tooltipOf 100 100 (simulatedObject ''B'' ''40002'' ''Debris'' [] 100 110)
      \<noteq> tooltipOf 100 100 (simulatedObject ''A'' ''40001'' ''Debris'' [] 105 100)"
    by (simp add: tooltipOf_def simulatedObject_def)
  then show ?thesis
    by (simp add: hoveredObject_def specHover_def isHovered_simulated withinRadius_simulated)
qed

text \<open>
  Claim C1, amended. The hover query returns the tooltip of the last object, in list order,
  whose screen position is at a distance strictly below 20 pixels from the pointer, and none
  exactly when no object is that close. An object is that close when both screen coordinates
  are numbers and their Euclidean distance to the pointer is below 20.
\<close>

theorem hover_last_wins:
  fixes objs :: "'sr DebrisObject list" and obj :: "'sr DebrisObject"
  shows "hoveredObject mx my objs =
       map_option (tooltipOf mx my) (find (isHovered mx my) (rev objs)) \<and>
     (hoveredObject mx my objs = None) = (\<forall>obj\<in>set objs. \<not> isHovered mx my obj) \<and>
     isHovered mx my obj =
       (\<exists>a b. pos_x (currentPos obj) = Some a \<and> pos_y (currentPos obj) = Some b \<and>
          sqrt ((a - mx)\<^sup>2 + (b - my)\<^sup>2) < 20)"
proof -
  have m: "hoveredObject mx my objs =
     map_option (tooltipOf mx my) (find (isHovered mx my) (rev objs))"
    by (simp add: hoveredObject_def hoverLoop_find split: option.splits)
  have n: "(hoveredObject mx my objs = None) = (\<forall>obj\<in>set objs. \<not> isHovered mx my obj)"
    by (auto simp: m find_None_iff)
  have h: "isHovered mx my obj =
      (\<exists>a b. pos_x (currentPos obj) = Some a \<and> pos_y (currentPos obj) = Some b \<and>
         sqrt ((a - mx)\<^sup>2 + (b - my)\<^sup>2) < 20)"
    by (auto simp: isHovered_def p5_dist_def split: option.splits)
  show ?thesis
    by (intro conjI m n h)
qed

text \<open>
  The example of the specification: with objects at (105, 100) and (300, 300) the pointer at
  (100, 100) hovers the first one, and the pointer at (500, 500) hovers nothing.
\<close>

theorem hover_last_wins_witness:
  "hoveredObject 100 100
     [simulatedObject ''A'' ''40001'' ''Debris'' [] 105 100,
      simulatedObject ''B'' ''40002'' ''Satellite'' [] 300 300]
   = Some (tooltipOf 100 100 (simulatedObject ''A'' ''40001'' ''Debris'' [] 105 100)) \<and>
   \<not> isHovered 500 500 (simulatedObject ''A'' ''40001'' ''Debris'' [] 105 100) \<and>
   \<not> isHovered 500 500 (simulatedObject ''B'' ''40002'' ''Satellite'' [] 300 300) \<and>
   hoveredObject 500 500
     [simulatedObject ''A'' ''40001'' ''Debris'' [] 105 100,
      simulatedObject ''B'' ''40002'' ''Satellite'' [] 300 300] = None"
proof -
  let ?A = "simulatedObject ''A'' ''40001'' ''Debris'' [] 105 100"
  let ?B = "simulatedObject ''B'' ''40002'' ''Satellite'' [] 300 300"
  have farA: "\<not> isHovered 500 500 ?A" and farB: "\<not> isHovered 500 500 ?B"
    by (simp_all add: isHovered_simulated)
  then have far: "\<forall>obj\<in>set [?A, ?B]. \<not> isHovered 500 500 obj"
    by simp
  have near: "hoveredObject 100 100 [?A, ?B] = Some (tooltipOf 100 100 ?A)"
    using hover_last_wins [of 100 100 "[?A, ?B]", THEN conjunct1]
    by (simp add: isHovered_simulated)
  have none: "hoveredObject 500 500 [?A, ?B] = None"
    by (rule iffD2 [OF hover_last_wins [of 500 500 "[?A, ?B]", THEN conjunct2, THEN conjunct1] far])
  show ?thesis
    by (intro conjI near farA farB none)
qed


section \<open>Properties of the trail\<close>

lemma positions_updateObject:
  "positions (updateObject w wd ht now obj) =
     filter (\<lambda>p. timestamp p > now - 90000) (positions obj) @
       [\<lparr> pos_x = fst (latLonToXY (fst (calculatePosition w obj now))
                          (snd (calculatePosition w obj now)) wd ht),
          pos_y = snd (latLonToXY (fst (calculatePosition w obj now))
                          (snd (calculatePosition w obj now)) wd ht),
          pos_lat = fst (calculatePosition w obj now),
          pos_lon = snd (calculatePosition w obj now),
          timestamp = now \<rparr>]"
  by (simp add: updateObject_def Let_def split: prod.splits)

lemma timestamps_updateObject:
  "map timestamp (positions (updateObject w wd ht now obj)) =
     filter (\<lambda>t. t > now - 90000) (map timestamp (positions obj)) @ [now]"
  by (simp add: positions_updateObject filter_map comp_def)

lemma sorted_le_last:
  fixes ts :: "int list"
  shows "sorted ts \<Longrightarrow> t \<in> set ts \<Longrightarrow> t \<le> last ts"
  by (induction ts) auto

lemma sorted_append_filter:
  fixes ts :: "int list"
  assumes "sorted ts" and "ts = [] \<or> last ts \<le> now"
  shows "sorted (filter P ts @ [now])"
proof -
  have "t \<le> now" if "t \<in> set ts" for t
    using sorted_le_last [OF assms(1) that] assms(2) that by auto
  with assms(1) show ?thesis
    by (auto simp: sorted_append intro: sorted_wrt_filter)
qed

lemma strict_sorted_append_filter:
  fixes ts :: "int list"
  assumes "sorted_wrt (<) ts" and "ts = [] \<or> last ts < now"
  shows "sorted_wrt (<) (filter P ts @ [now])"
proof -
  have "sorted ts"
    using assms(1) by (rule sorted_wrt_mono_rel [rotated]) simp
  then have "t < now" if "t \<in> set ts" for t
    using sorted_le_last [of ts t] assms(2) that by auto
  with assms(1) show ?thesis
    by (auto simp: sorted_wrt_append intro: sorted_wrt_filter)
qed

text \<open>
  Claim C5, amended. After the per-object step of a frame at time \<open>now\<close> (append, then
  prune), every retained sample is younger than 90 000 ms, and the sample of this frame is the
  last of the trail. If the time stamps of the trail were in non-decreasing order and the last
  of them was at most \<open>now\<close>, they are in non-decreasing order afterwards; if they were
  strictly ascending and the last of them was below \<open>now\<close>, they are strictly ascending
  afterwards. The step itself appends every sample, it has no test that rejects one.
\<close>

theorem trail_window_and_order:
  "(\<forall>s\<in>set (positions (updateObject w wd ht now obj)). now - timestamp s < 90000) \<and>
   timestamp (last (positions (updateObject w wd ht now obj))) = now \<and>
   (sorted (map timestamp (positions obj)) \<and>
      (positions obj = [] \<or> timestamp (last (positions obj)) \<le> now)
    \<longrightarrow> sorted (map timestamp (positions (updateObject w wd ht now obj)))) \<and>
   (sorted_wrt (<) (map timestamp (positions obj)) \<and>
      (positions obj = [] \<or> timestamp (last (positions obj)) < now)
    \<longrightarrow> sorted_wrt (<) (map timestamp (positions (updateObject w wd ht now obj))))"
proof (intro conjI impI)
  show "\<forall>s\<in>set (positions (updateObject w wd ht now obj)). now - timestamp s < 90000"
    by (auto simp: positions_updateObject)
  show "timestamp (last (positions (updateObject w wd ht now obj))) = now"
    by (simp add: positions_updateObject)
next
  assume a: "sorted (map timestamp (positions obj)) \<and>
      (positions obj = [] \<or> timestamp (last (positions obj)) \<le> now)"
  then have "map timestamp (positions obj) = [] \<or> last (map timestamp (positions obj)) \<le> now"
    by (cases "positions obj = []") (simp_all add: last_map)
  with a show "sorted (map timestamp (positions (updateObject w wd ht now obj)))"
    unfolding timestamps_updateObject by (intro sorted_append_filter) simp_all
next
  assume a: "sorted_wrt (<) (map timestamp (positions obj)) \<and>
      (positions obj = [] \<or> timestamp (last (positions obj)) < now)"
  then have "map timestamp (positions obj) = [] \<or> last (map timestamp (positions obj)) < now"
    by (cases "positions obj = []") (simp_all add: last_map)
  with a show "sorted_wrt (<) (map timestamp (positions (updateObject w wd ht now obj)))"
    unfolding timestamps_updateObject by (intro strict_sorted_append_filter) simp_all
qed

text \<open>
  Claim C5, as stated, fails: a trail whose only sample has time stamp 1000 is strictly
  ascending, and a frame at time 1000 appends a sample that is not older than the last one;
  the trail then holds two samples with the same time stamp and is not strictly ascending.
\<close>

theorem trail_strict_counterexample:
  "map timestamp (positions (simulatedObject ''A'' ''40001'' ''Debris'' [sampleAt 1000] 0 0))
     = [1000] \<and>
   map timestamp
     (positions (updateObject None 800 600 1000
        (simulatedObject ''A'' ''40001'' ''Debris'' [sampleAt 1000] 0 0))) = [1000, 1000] \<and>
   \<not> sorted_wrt (<)
     (map timestamp
       (positions (updateObject None 800 600 1000
          (simulatedObject ''A'' ''40001'' ''Debris'' [sampleAt 1000] 0 0))))"
  by (simp add: timestamps_updateObject simulatedObject_def sampleAt_def)

text \<open>
  A trail with samples at 1000 and 50000 and a frame at 95000: the first sample is pruned, the
  trail stays strictly ascending and within the window.
\<close>

theorem trail_window_and_order_witness:
  "sorted_wrt (<) (map timestamp [sampleAt 1000, sampleAt 50000]) \<and>
   timestamp (last [sampleAt 1000, sampleAt 50000]) < 95000 \<and>
   map timestamp
     (positions (updateObject None 800 600 95000
        (simulatedObject ''A'' ''40001'' ''Debris'' [sampleAt 1000, sampleAt 50000] 0 0)))
     = [50000, 95000] \<and>
   sorted_wrt (<) (map timestamp
     (positions (updateObject None 800 600 95000
        (simulatedObject ''A'' ''40001'' ''Debris'' [sampleAt 1000, sampleAt 50000] 0 0)))) \<and>
   sorted (map timestamp
     (positions (updateObject None 800 600 95000
        (simulatedObject ''A'' ''40001'' ''Debris'' [sampleAt 1000, sampleAt 50000] 0 0)))) \<and>
   timestamp (last (positions (updateObject None 800 600 95000
        (simulatedObject ''A'' ''40001'' ''Debris'' [sampleAt 1000, sampleAt 50000] 0 0))))
     = 95000"
proof -
  let ?obj = "simulatedObject ''A'' ''40001'' ''Debris'' [sampleAt 1000, sampleAt 50000] 0 0"
  have p: "positions ?obj = [sampleAt 1000, sampleAt 50000]"
    by (simp add: simulatedObject_def)
  have s: "sorted_wrt (<) (map timestamp [sampleAt 1000, sampleAt 50000])"
    and l: "timestamp (last [sampleAt 1000, sampleAt 50000]) < 95000"
    and s': "sorted (map timestamp [sampleAt 1000, sampleAt 50000])"
    and l': "timestamp (last [sampleAt 1000, sampleAt 50000]) \<le> 95000"
    by (simp_all add: sampleAt_def)
  note t = trail_window_and_order [of None 800 600 95000 ?obj, unfolded p]
  have v: "map timestamp (positions (updateObject None 800 600 95000 ?obj)) = [50000, 95000]"
    by (simp add: timestamps_updateObject simulatedObject_def sampleAt_def)
  from t s l s' l' v show ?thesis
    by (intro conjI) blast+
qed


section \<open>Properties of the classification\<close>

lemma classify_unknown_iff:
  "(fst (classify nm) = ''Unknown'') = (\<forall>p\<in>set patterns. \<not> str_includes nm p)"
  by (simp add: classify_def patterns_def)

lemma classify_tracked: "fst (classify nm) \<in> trackedCategories"
  by (simp add: classify_def trackedCategories_def)

lemma classify_ML_unknown_iff:
  "(classify_ML nm = ''Unknown'') = (\<forall>p\<in>set patterns_ML. \<not> str_includes nm p)"
  by (simp add: classify_ML_def patterns_ML_def)

lemma classify_ML_range:
  "classify_ML nm \<in> trackedCategories \<union> {''Constellation'', ''Weather'', ''Earth Observation''}"
  by (simp add: classify_ML_def trackedCategories_def)

lemma parseRecord_Some:
  assumes "parseRecord w l0 l1 l2 = Some obj"
  shows "name obj = trim l0" and "category obj = fst (classify (trim l0))"
  using assms by (auto simp: parseRecord_def Let_def split: option.splits prod.splits)

text \<open>
  Claim C6, amended. An object that the parser of DebrisSimulation builds from a raw record
  has a category among Debris, Satellite, Rocket Body and Unknown, and it is Unknown exactly
  when none of the patterns of that parser occurs in its display name. The classification of
  MLAnalysis has three more categories, Constellation, Weather and Earth Observation, and
  gives Unknown exactly when none of its own patterns occurs in the display name.
\<close>

theorem classification_categories:
  "(parseRecord w l0 l1 l2 = Some obj \<longrightarrow>
      category obj \<in> trackedCategories \<and>
      (category obj = ''Unknown'') = (\<forall>p\<in>set patterns. \<not> str_includes (name obj) p)) \<and>
   classify_ML nm
     \<in> trackedCategories \<union> {''Constellation'', ''Weather'', ''Earth Observation''} \<and>
   (classify_ML nm = ''Unknown'') = (\<forall>p\<in>set patterns_ML. \<not> str_includes nm p)"
proof (intro conjI impI)
  assume p: "parseRecord w l0 l1 l2 = Some obj"
  show "category obj \<in> trackedCategories"
    by (simp only: parseRecord_Some [OF p] classify_tracked)
  show "(category obj = ''Unknown'') = (\<forall>p\<in>set patterns. \<not> str_includes (name obj) p)"
    by (simp only: parseRecord_Some [OF p] classify_unknown_iff)
next
  show "classify_ML nm
      \<in> trackedCategories \<union> {''Constellation'', ''Weather'', ''Earth Observation''}"
    by (rule classify_ML_range)
  show "(classify_ML nm = ''Unknown'') = (\<forall>p\<in>set patterns_ML. \<not> str_includes nm p)"
    by (rule classify_ML_unknown_iff)
qed

text \<open>
  Claim C6, as stated, fails for the classification of MLAnalysis: the display name
  STARLINK-1007 gets the category Constellation, which is not in the closed set.
\<close>

theorem classify_ML_counterexample:
  "classify_ML ''STARLINK-1007'' = ''Constellation'' \<and>
   classify_ML ''STARLINK-1007'' \<notin> trackedCategories"
  by (simp add: classify_ML_def trackedCategories_def)

lemma parseRecord_iss:
  "parseRecord (Some acceptingLib) ''ISS (ZARYA)''
      ''1 25544U 98067A   24001.50000000  .00000000  00000-0  00000-0 0  9999''
      ''2 25544  51.6000 100.0000 0001000  90.0000 270.0000 15.50000000    10''
    = Some issObject"
  by code_simp

text \<open>
  The record of the ISS matches no pattern: the parser builds an object of category Unknown.
\<close>

theorem classification_categories_witness:
  "parseRecord (Some acceptingLib) ''ISS (ZARYA)''
      ''1 25544U 98067A   24001.50000000  .00000000  00000-0  00000-0 0  9999''
      ''2 25544  51.6000 100.0000 0001000  90.0000 270.0000 15.50000000    10''
    = Some issObject \<and>
   category issObject \<in> trackedCategories \<and>
   category issObject = ''Unknown'' \<and>
   \<not> str_includes (name issObject) ''DEB'' \<and>
   classify_ML ''NOAA 19'' = ''Weather''"
proof -
  note t = classification_categories [of "Some acceptingLib" "''ISS (ZARYA)''"
      "''1 25544U 98067A   24001.50000000  .00000000  00000-0  00000-0 0  9999''"
      "''2 25544  51.6000 100.0000 0001000  90.0000 270.0000 15.50000000    10''"
      issObject "''NOAA 19''"]
  from t parseRecord_iss have c: "category issObject \<in> trackedCategories"
    and u: "(category issObject = ''Unknown'')
        = (\<forall>p\<in>set patterns. \<not> str_includes (name issObject) p)"
    by blast+
  have k: "category issObject = ''Unknown''"
    by (simp add: issObject_def)
  with u have "\<forall>p\<in>set patterns. \<not> str_includes (name issObject) p"
    by simp
  then have d: "\<not> str_includes (name issObject) ''DEB''"
    by (simp add: patterns_def)
  have w: "classify_ML ''NOAA 19'' = ''Weather''"
    by (simp add: classify_ML_def)
  show ?thesis
    by (intro conjI parseRecord_iss c k d w)
qed


section \<open>Properties of the record parser\<close>

declare parseLoop.simps [simp del]

text \<open>
  Claim C10. For every input text and every library, the list returned by \<open>parseTLEData\<close>
  is a block of at most 12 objects of category Debris, followed by a block of at most 10 of
  category Satellite, followed by a block of at most 6 of category Rocket Body; it has at
  most 25 objects, and none of them has another category, so none is Unknown.
\<close>

theorem parseTLEData_shape:
  "(\<exists>deb sats rockets.
      parseTLEData w tleData = deb @ sats @ rockets \<and>
      length deb \<le> 12 \<and> (\<forall>obj\<in>set deb. category obj = ''Debris'') \<and>
      length sats \<le> 10 \<and> (\<forall>obj\<in>set sats. category obj = ''Satellite'') \<and>
      length rockets \<le> 6 \<and> (\<forall>obj\<in>set rockets. category obj = ''Rocket Body'')) \<and>
   length (parseTLEData w tleData) \<le> 25 \<and>
   (\<forall>obj\<in>set (parseTLEData w tleData).
      category obj \<in> {''Debris'', ''Satellite'', ''Rocket Body''} \<and>
      category obj \<noteq> ''Unknown'')"
proof -
  define objects where "objects = parseLoop w (split_newline (trim tleData)) 0 []"
  define D where "D = take 12 (filter (\<lambda>obj. category obj = ''Debris'') objects)"
  define S where "S = take 10 (filter (\<lambda>obj. category obj = ''Satellite'') objects)"
  define R where "R = take 6 (filter (\<lambda>obj. category obj = ''Rocket Body'') objects)"
  have res: "parseTLEData w tleData = take 25 (D @ S @ R)"
    unfolding parseTLEData_def Let_def objects_def D_def S_def R_def by (rule refl)
  have cD: "\<forall>obj\<in>set D. category obj = ''Debris''"
    and cS: "\<forall>obj\<in>set S. category obj = ''Satellite''"
    and cR: "\<forall>obj\<in>set R. category obj = ''Rocket Body''"
    by (auto simp: D_def S_def R_def dest: in_set_takeD)
  have lD: "length D \<le> 12" and lS: "length S \<le> 10" and lR: "length R \<le> 6"
    by (simp_all add: D_def S_def R_def)
  let ?d = "take 25 D" and ?s = "take (25 - length D) S"
    and ?r = "take (25 - length D - length S) R"
  have split: "parseTLEData w tleData = ?d @ ?s @ ?r"
    by (simp add: res take_append)
  have "length ?d \<le> 12" "length ?s \<le> 10" "length ?r \<le> 6"
    using lD lS lR by simp_all
  moreover have "\<forall>obj\<in>set ?d. category obj = ''Debris''"
    "\<forall>obj\<in>set ?s. category obj = ''Satellite''"
    "\<forall>obj\<in>set ?r. category obj = ''Rocket Body''"
    using cD cS cR by (auto dest: in_set_takeD)
  ultimately have shape: "\<exists>deb sats rockets.
      parseTLEData w tleData = deb @ sats @ rockets \<and>
      length deb \<le> 12 \<and> (\<forall>obj\<in>set deb. category obj = ''Debris'') \<and>
      length sats \<le> 10 \<and> (\<forall>obj\<in>set sats. category obj = ''Satellite'') \<and>
      length rockets \<le> 6 \<and> (\<forall>obj\<in>set rockets. category obj = ''Rocket Body'')"
    using split by blast
  have len: "length (parseTLEData w tleData) \<le> 25"
    by (simp add: res)
  have cats: "\<forall>obj\<in>set (parseTLEData w tleData).
      category obj \<in> {''Debris'', ''Satellite'', ''Rocket Body''} \<and>
      category obj \<noteq> ''Unknown''"
  proof
    fix obj
    assume "obj \<in> set (parseTLEData w tleData)"
    then have "obj \<in> set D \<union> set S \<union> set R"
      unfolding res by (auto dest: in_set_takeD)
    with cD cS cR show "category obj \<in> {''Debris'', ''Satellite'', ''Rocket Body''}
        \<and> category obj \<noteq> ''Unknown''"
      by auto
  qed
  from shape len cats show ?thesis
    by (intro conjI)
qed

lemma sample_parsed:
  "map category (parseLoop (Some acceptingLib) (split_newline (trim sampleText)) 0 [])
     = [''Debris'', ''Unknown'']"
  by code_simp

lemma sample_result:
  "map category (parseTLEData (Some acceptingLib) sampleText) = [''Debris'']"
  by code_simp

text \<open>
  The sample text holds a debris record and the record of the ISS. Both are parsed, the
  second one as Unknown, and only the first one is returned.
\<close>

theorem parseTLEData_shape_witness:
  "map category (parseLoop (Some acceptingLib) (split_newline (trim sampleText)) 0 [])
     = [''Debris'', ''Unknown''] \<and>
   map category (parseTLEData (Some acceptingLib) sampleText) = [''Debris''] \<and>
   length (parseTLEData (Some acceptingLib) sampleText) \<le> 25"
  using parseTLEData_shape [of "Some acceptingLib" sampleText, THEN conjunct2, THEN conjunct1]
    sample_parsed sample_result by (intro conjI)


section \<open>Properties of the position fallback\<close>

lemma js_rem_nonneg:
  assumes "0 \<le> a" "0 < b"
  shows "js_rem a b = a - b * of_int \<lfloor>a / b\<rfloor>" and "0 \<le> js_rem a b" and "js_rem a b < b"
proof -
  have q: "0 \<le> a / b"
    using assms by simp
  then show eq: "js_rem a b = a - b * of_int \<lfloor>a / b\<rfloor>"
    by (simp add: js_rem_def)
  have "of_int \<lfloor>a / b\<rfloor> \<le> a / b"
    by (rule of_int_floor_le)
  with assms(2) have "of_int \<lfloor>a / b\<rfloor> * b \<le> a"
    by (simp only: pos_le_divide_eq)
  then show "0 \<le> js_rem a b"
    by (simp add: eq mult.commute)
  have "a / b < of_int \<lfloor>a / b\<rfloor> + 1"
    by linarith
  with assms(2) have "a < (of_int \<lfloor>a / b\<rfloor> + 1) * b"
    by (simp only: pos_divide_less_eq)
  then show "js_rem a b < b"
    by (simp add: eq algebra_simps)
qed

lemma js_rem_small:
  assumes "0 \<le> a" "a < b"
  shows "js_rem a b = a"
proof -
  have b: "0 < b"
    using assms by simp
  have "0 \<le> a / b" "a / b < 1"
    using assms b by simp_all
  then have "\<lfloor>a / b\<rfloor> = 0"
    by (simp add: floor_eq_iff)
  with js_rem_nonneg(1) [OF assms(1) b] show ?thesis
    by simp
qed

lemma js_rem_small_neg:
  assumes "a \<le> 0" "- b < a"
  shows "js_rem a b = a"
proof -
  have b: "0 < b"
    using assms by simp
  have q: "- 1 < a / b" "a / b \<le> 0"
    using assms b by (simp_all add: pos_less_divide_eq divide_nonpos_pos)
  then have c: "\<lceil>a / b\<rceil> = 0"
    by (simp add: ceiling_eq_iff)
  show ?thesis
  proof (cases "a / b = 0")
    case True
    then show ?thesis
      using b by (simp add: js_rem_def)
  next
    case False
    with q(2) have "\<not> 0 \<le> a / b"
      by simp
    then show ?thesis
      by (simp add: js_rem_def Let_def c)
  qed
qed

lemma sin_scaled_bounds:
  assumes "0 \<le> k" "50 * k \<le> (90 :: real)"
  shows "- 90 \<le> sin v * 50 * k" and "sin v * 50 * k \<le> 90"
proof -
  have "\<bar>sin v * (50 * k)\<bar> \<le> 1 * (50 * k)"
    unfolding abs_mult using assms(1) by (intro mult_mono) simp_all
  with assms(2) have "\<bar>sin v * 50 * k\<bar> \<le> 90"
    by (simp add: mult.assoc)
  then show "- 90 \<le> sin v * 50 * k" and "sin v * 50 * k \<le> 90"
    by linarith+
qed

lemma fallbackPosition_spec:
  "fallbackPosition nid cat date =
     (case parseInt nid of
        None \<Rightarrow> (None, None)
      | Some n \<Rightarrow> (Some (fst (specFallback n (categoryOf cat) date)),
                   Some (snd (specFallback n (categoryOf cat) date))))"
  by (simp add: fallbackPosition_def specFallback_def categoryOf_def Let_def
      split: option.splits)



lemma parseInt_39990: "parseInt ''39990'' = Some 39990"
  by code_simp

lemma parseInt_minus_100: "parseInt ''-100'' = Some (- 100)"
  by code_simp

lemma parseInt_alpha5: "parseInt ''T0002'' = None"
  by code_simp

lemma specFallback_39990: "specFallback 39990 Debris 0 = (45, - 150)"
proof -
  have r: "js_rem 39990 360 = 30"
    by (simp add: js_rem_def)
  have s: "js_rem (pi / 6) (2 * pi) = pi / 6"
    by (rule js_rem_small) simp_all
  show ?thesis
    by (simp add: specFallback_def r s sin_30)
qed

text \<open>
  Claim C9, amended. When the catalog id is read by \<open>parseInt\<close> as a non-negative integer and
  the time stamp is non-negative, the fallback returns two numbers, with the latitude between
  -90 and 90 and the longitude at least -180 and below 180, for every category.
\<close>

theorem fallback_in_range:
  assumes "parseInt nid = Some n" and "0 \<le> n" and "0 \<le> date"
  shows "\<exists>la lo. fallbackPosition nid cat date = (Some la, Some lo) \<and>
           - 90 \<le> la \<and> la \<le> 90 \<and> - 180 \<le> lo \<and> lo < 180"
proof -
  define c where "c = categoryOf cat"
  define t where "t = real_of_int date / 1000 * 0.001 * speedMultiplier c"
  define phase where "phase = js_rem (of_int n) 360 * (pi / 180)"
  have sm: "0 \<le> speedMultiplier c"
    by (cases c) simp_all
  have t0: "0 \<le> t"
    using assms(3) sm by (simp add: t_def)
  have p0: "0 \<le> phase"
    using js_rem_nonneg(2) [of "of_int n" 360] assms(2) by (simp add: phase_def)
  have s: "specFallback n c date =
      (sin (t + phase) * 50 * inclinationFactor c,
       js_rem (t * 2.5 + phase) (2 * pi) * (180 / pi) - 180)"
    by (simp add: specFallback_def t_def phase_def Let_def)
  have k: "0 \<le> inclinationFactor c" "50 * inclinationFactor c \<le> 90"
    by (cases c; simp)+
  note lat = sin_scaled_bounds [OF k, of "t + phase"]
  have a0: "0 \<le> t * 2.5 + phase"
    using t0 p0 by simp
  have r0: "0 \<le> js_rem (t * 2.5 + phase) (2 * pi)"
    and r1: "js_rem (t * 2.5 + phase) (2 * pi) < 2 * pi"
    using js_rem_nonneg(2,3) [OF a0, of "2 * pi"] by simp_all
  have "0 \<le> js_rem (t * 2.5 + phase) (2 * pi) * (180 / pi)"
    using r0 by simp
  moreover have "js_rem (t * 2.5 + phase) (2 * pi) * (180 / pi) < 360"
    using r1 by (simp add: pos_less_divide_eq [symmetric] field_simps)
  ultimately have lon: "- 180 \<le> js_rem (t * 2.5 + phase) (2 * pi) * (180 / pi) - 180"
    "js_rem (t * 2.5 + phase) (2 * pi) * (180 / pi) - 180 < 180"
    by simp_all
  have "fallbackPosition nid cat date =
      (Some (sin (t + phase) * 50 * inclinationFactor c),
       Some (js_rem (t * 2.5 + phase) (2 * pi) * (180 / pi) - 180))"
    by (simp add: fallbackPosition_spec assms(1) s c_def [symmetric])
  with lat lon show ?thesis
    by blast
qed

text \<open>
  Claim C9, as stated, fails: for the catalog id -100 at time 0 the longitude is -280, below
  -180; for a catalog id without leading digit, such as T0002, both coordinates are NaN.
\<close>

theorem fallback_negative_id_counterexample:
  "parseInt ''-100'' = Some (- 100) \<and>
   snd (fallbackPosition ''-100'' ''Debris'' 0) = Some (- 280) \<and>
   fallbackPosition ''T0002'' ''Debris'' 0 = (None, None)"
proof -
  have r: "js_rem (- 100) 360 = - 100"
    by (rule js_rem_small_neg) simp_all
  have s: "js_rem (- (5 * pi / 9)) (2 * pi) = - (5 * pi / 9)"
    by (rule js_rem_small_neg) simp_all
  have "snd (specFallback (- 100) Debris 0) = - 280"
    by (simp add: specFallback_def r s)
  then show ?thesis
    by (simp add: fallbackPosition_spec parseInt_minus_100 parseInt_alpha5 categoryOf_def)
qed


theorem fallback_in_range_witness:
  "parseInt ''39990'' = Some 39990 \<and> (0 :: int) \<le> 39990 \<and>
   fallbackPosition ''39990'' ''Debris'' 0 = (Some 45, Some (- 150)) \<and>
   (- 90 :: real) \<le> 45 \<and> (45 :: real) \<le> 90 \<and> (- 180 :: real) \<le> - 150 \<and> (- 150 :: real) < 180"
proof -
  have v: "fallbackPosition ''39990'' ''Debris'' 0 = (Some 45, Some (- 150))"
    by (simp add: fallbackPosition_spec parseInt_39990 categoryOf_def specFallback_39990)
  from fallback_in_range [OF parseInt_39990, of 0 "''Debris''"]
  obtain la lo where "fallbackPosition ''39990'' ''Debris'' 0 = (Some la, Some lo)"
    and "- 90 \<le> la" "la \<le> 90" "- 180 \<le> lo" "lo < 180"
    by auto
  with v have "(- 90 :: real) \<le> 45" "(45 :: real) \<le> 90" "(- 180 :: real) \<le> - 150"
    "(- 150 :: real) < 180"
    by simp_all
  with v parseInt_39990 show ?thesis
    by simp
qed

end
